theory Spec2Isabelle
  imports Complex_Main
begin

section \<open>Tensors, errors and variables\<close>

text \<open>
  The program builds TensorFlow graphs and the library runs them. The embedding follows
  the source function by function; the library operations the source calls are written
  out with the meaning the library documents for them. Float tensors are idealised as
  tensors of real numbers, so rounding, overflow and NaN are outside the model. A tensor
  of rank two carries the width that shape inference knows for its second axis and one
  list of entries per batch element.
\<close>

type_synonym vec = "real list"

type_synonym matrix = "real list list"

datatype tf_error = ValueError | InvalidArgumentError | AttributeError | IndexError

record tensor =
  width :: nat
  rows :: matrix

definition wf_tensor :: "tensor \<Rightarrow> bool" where
  "wf_tensor t = list_all (\<lambda>r. length r = width t) (rows t)"

definition bind_result :: "tf_error + 'a \<Rightarrow> ('a \<Rightarrow> tf_error + 'b) \<Rightarrow> tf_error + 'b" where
  "bind_result m f = (case m of Inl e \<Rightarrow> Inl e | Inr a \<Rightarrow> f a)"

section \<open>TextRNN: graph construction\<close>

text \<open>
  \<open>TextRNN.__init__\<close> assembles a graph. Its model works on static shapes: a shape is a
  list of dimensions, \<open>None\<close> for the batch dimension a placeholder leaves open. A
  pretrained embedding is a dense array of rank two with its own dimensions.
\<close>

type_synonym shape = "nat option list"

record ndarray =
  nd_rows :: nat
  nd_cols :: nat
  nd_data :: matrix

datatype embedding =
    RandomUniformVariable nat nat
  | PretrainedConstant ndarray
  | PretrainedVariable ndarray bool

fun embedding_shape :: "embedding \<Rightarrow> nat list" where
  "embedding_shape (RandomUniformVariable v e) = [v, e]"
| "embedding_shape (PretrainedConstant p) = [nd_rows p, nd_cols p]"
| "embedding_shape (PretrainedVariable p t) = [nd_rows p, nd_cols p]"

fun embedding_trainable :: "embedding \<Rightarrow> bool" where
  "embedding_trainable (RandomUniformVariable v e) = True"
| "embedding_trainable (PretrainedConstant p) = False"
| "embedding_trainable (PretrainedVariable p t) = t"

text \<open>
  Lines 161 to 169: the attribute \<open>self.W\<close>. It starts unassigned (\<open>None\<close> here); the two
  tests on \<open>embedding_type\<close> are separate \<open>if\<close> statements with no \<open>else\<close>.
\<close>

definition assign_W :: "nat \<Rightarrow> nat \<Rightarrow> int \<Rightarrow> ndarray option \<Rightarrow> embedding option" where
  "assign_W vocab_size embedding_size embedding_type pretrained_embedding =
     (case pretrained_embedding of
        None \<Rightarrow> Some (RandomUniformVariable vocab_size embedding_size)
      | Some p \<Rightarrow>
          (let W0 = None;
               W1 = (if embedding_type = 0 then Some (PretrainedConstant p) else W0);
               W2 = (if embedding_type = 1 then Some (PretrainedVariable p True) else W1)
           in W2))"

text \<open>
  Line 170: reading \<open>self.W\<close> raises \<open>AttributeError\<close> when it was never assigned;
  \<open>embedding_lookup\<close> gathers along the first axis of the table, so its result has the
  shape of the indices followed by the remaining dimensions of the table.
\<close>

definition read_attribute :: "'a option \<Rightarrow> tf_error + 'a" where
  "read_attribute a = (case a of None \<Rightarrow> Inl AttributeError | Some v \<Rightarrow> Inr v)"

definition embedding_lookup :: "embedding \<Rightarrow> shape \<Rightarrow> shape" where
  "embedding_lookup W ids = ids @ map Some (tl (embedding_shape W))"

record text_rnn =
  input_x :: shape
  input_y :: shape
  embedding_W :: embedding
  embedded_chars :: shape
  output_rnn_last :: shape
  logits :: shape
  loss :: shape

text \<open>
  The whole constructor. The two \<open>BasicLSTMCell\<close>s and \<open>bidirectional_dynamic_rnn\<close> are
  library code: each direction yields \<open>[batch, time, hidden_size]\<close>, the two are
  concatenated on axis 2 and averaged over axis 1.
\<close>

definition TextRNN_init ::
  "nat \<Rightarrow> nat \<Rightarrow> nat \<Rightarrow> nat \<Rightarrow> nat \<Rightarrow> int \<Rightarrow> real \<Rightarrow> ndarray option \<Rightarrow> tf_error + text_rnn" where
  "TextRNN_init sequence_length num_classes vocab_size hidden_size embedding_size
       embedding_type l2_reg_lambda pretrained_embedding =
     (let x_shape = [None, Some sequence_length];
          y_shape = [None, Some num_classes];
          self_W = assign_W vocab_size embedding_size embedding_type pretrained_embedding
      in bind_result (read_attribute self_W) (\<lambda>W.
           let chars = embedding_lookup W x_shape;
               fw = take 2 chars @ [Some hidden_size];
               bw = take 2 chars @ [Some hidden_size];
               output_rnn = take 2 fw @ [Some (hidden_size + hidden_size)];
               rnn_last = [hd output_rnn, Some (hidden_size * 2)];
               logits_shape = [hd rnn_last, Some num_classes]
           in Inr \<lparr> input_x = x_shape, input_y = y_shape, embedding_W = W,
                    embedded_chars = chars, output_rnn_last = rnn_last,
                    logits = logits_shape, loss = [] \<rparr>))"

section \<open>Variables and variable scopes\<close>

text \<open>
  A variable lives in the graph's variable store under its full name, the enclosing
  scope names joined by a slash; the program holds it by that name, and every read and
  assignment goes to the store of the run. The model covers values of rank one and two.
  The store is threaded through every operation that creates, reads or assigns a
  variable.
\<close>

datatype tval = Vec vec | Mat matrix

record variable =
  v_shape :: "nat list"
  v_val :: tval
  v_trainable :: bool

type_synonym store = "string \<Rightarrow> variable option"

type_synonym initializer = "nat list \<Rightarrow> tf_error + tval"

fun vec_of :: "tval \<Rightarrow> vec" where
  "vec_of (Vec xs) = xs"
| "vec_of (Mat m) = concat m"

fun fill :: "real \<Rightarrow> nat list \<Rightarrow> tf_error + tval" where
  "fill c [n] = Inr (Vec (replicate n c))"
| "fill c [r, k] = Inr (Mat (replicate r (replicate k c)))"
| "fill c shp = Inl ValueError"

definition constant_initializer :: "real \<Rightarrow> initializer" where
  "constant_initializer c = fill c"

definition zeros_initializer :: initializer where
  "zeros_initializer = fill 0"

definition ones_initializer :: initializer where
  "ones_initializer = fill 1"

definition scope_join :: "string \<Rightarrow> string \<Rightarrow> string" where
  "scope_join outer name = (if outer = [] then name else outer @ ''/'' @ name)"

text \<open>
  \<open>tf.get_variable\<close> in a scope that reuses looks the variable up and fails when it is
  missing or has another shape; in a scope that does not reuse it creates the variable
  and fails when the name is taken. A call that passes no initializer gets the default
  one of the enclosing scope, which the library fills with a random Glorot-uniform
  initializer when the scope sets none: that default is the parameter \<open>dflt\<close>. The result
  is the variable's full name.
\<close>

definition get_variable ::
  "bool \<Rightarrow> initializer \<Rightarrow> string \<Rightarrow> string \<Rightarrow> nat list \<Rightarrow> initializer option \<Rightarrow> bool
     \<Rightarrow> store \<Rightarrow> tf_error + (string \<times> store)" where
  "get_variable reuse dflt scope name shp init trainable s =
     (let full = scope_join scope name in
      case s full of
        Some v \<Rightarrow> if reuse \<and> v_shape v = shp then Inr (full, s) else Inl ValueError
      | None \<Rightarrow>
          if reuse then Inl ValueError
          else bind_result ((case init of None \<Rightarrow> dflt | Some i \<Rightarrow> i) shp) (\<lambda>x.
                 Inr (full, s(full \<mapsto> \<lparr> v_shape = shp, v_val = x, v_trainable = trainable \<rparr>))))"

text \<open>
  Reading and assigning by name. A name that \<open>get_variable\<close> returned is in the store,
  so the \<open>None\<close> cases below are never reached by the program.
\<close>

definition read_var :: "store \<Rightarrow> string \<Rightarrow> tval" where
  "read_var s n = (case s n of Some v \<Rightarrow> v_val v | None \<Rightarrow> Vec [])"

definition tf_assign :: "string \<Rightarrow> (store \<Rightarrow> tval) \<Rightarrow> store \<Rightarrow> store" where
  "tf_assign n e s = (case s n of Some v \<Rightarrow> s(n \<mapsto> v\<lparr> v_val := e s \<rparr>) | None \<Rightarrow> s)"

definition control_dependencies ::
  "(store \<Rightarrow> store) list \<Rightarrow> (store \<Rightarrow> 'a) \<Rightarrow> store \<Rightarrow> 'a \<times> store" where
  "control_dependencies ops body s = (let s' = fold (\<lambda>op acc. op acc) ops s in (body s', s'))"

text \<open>
  A boolean tensor is evaluated when the graph runs. \<open>tf.constant\<close> yields the node whose
  value in every run is the Python value it was built from; \<open>tf.cond\<close> evaluates its
  predicate in the run and executes the operations of one branch only.
\<close>

definition tf_constant :: "'a \<Rightarrow> store \<Rightarrow> 'a" where
  "tf_constant v = (\<lambda>s. v)"

definition tf_cond :: "(store \<Rightarrow> bool) \<Rightarrow> (store \<Rightarrow> 'a) \<Rightarrow> (store \<Rightarrow> 'a) \<Rightarrow> store \<Rightarrow> 'a" where
  "tf_cond pred true_fn false_fn s = (if pred s then true_fn s else false_fn s)"

section \<open>Batch normalization\<close>

text \<open>
  \<open>tf.nn.moments(x, [0])\<close> is the mean and the (biased) variance of every column;
  \<open>tf.nn.batch_normalization\<close> computes \<open>x * inv + (offset - mean * inv)\<close> with
  \<open>inv = rsqrt(variance + epsilon) * scale\<close>. On an empty batch the library's mean is
  NaN, which the reals do not have: a statement about the batch statistics themselves
  is about a batch that is not empty.
\<close>

definition column :: "matrix \<Rightarrow> nat \<Rightarrow> vec" where
  "column m k = map (\<lambda>r. r ! k) m"

definition reduce_mean :: "vec \<Rightarrow> real" where
  "reduce_mean xs = sum_list xs / real (length xs)"

definition moments :: "tensor \<Rightarrow> vec \<times> vec" where
  "moments x =
     (let mean = map (\<lambda>k. reduce_mean (column (rows x) k)) [0..<width x];
          variance = map (\<lambda>k. reduce_mean (map (\<lambda>v. (v - mean ! k)\<^sup>2) (column (rows x) k)))
                       [0..<width x]
      in (mean, variance))"

definition scale_vec :: "vec \<Rightarrow> real \<Rightarrow> vec" where
  "scale_vec xs c = map (\<lambda>v. v * c) xs"

definition batch_normalization :: "tensor \<Rightarrow> vec \<Rightarrow> vec \<Rightarrow> vec \<Rightarrow> vec \<Rightarrow> real \<Rightarrow> tensor" where
  "batch_normalization x mean variance offset scale epsilon =
     (let inv = map2 (*) (map (\<lambda>v. 1 / sqrt (v + epsilon)) variance) scale;
          shift = map2 (-) offset (map2 (*) mean inv)
      in x\<lparr> rows := map (\<lambda>row. map2 (+) (map2 (*) row inv) shift) (rows x) \<rparr>)"

text \<open>
  Lines 117 to 121 of \<open>batch_norm\<close>: the four per-feature variables of the scope.
\<close>

definition batch_norm_variables ::
  "bool \<Rightarrow> initializer \<Rightarrow> string \<Rightarrow> nat \<Rightarrow> store
     \<Rightarrow> tf_error + ((string \<times> string \<times> string \<times> string) \<times> store)" where
  "batch_norm_variables reuse dflt scope sz s0 =
     bind_result (get_variable reuse dflt scope ''scale'' [sz]
                    (Some (constant_initializer 0.1)) True s0) (\<lambda>(scale, s1).
     bind_result (get_variable reuse dflt scope ''offset'' [sz] None True s1) (\<lambda>(offset, s2).
     bind_result (get_variable reuse dflt scope ''pop_mean'' [sz]
                    (Some zeros_initializer) False s2) (\<lambda>(pop_mean, s3).
     bind_result (get_variable reuse dflt scope ''pop_var'' [sz]
                    (Some ones_initializer) False s3) (\<lambda>(pop_var, s4).
     Inr ((scale, offset, pop_mean, pop_var), s4)))))"

text \<open>
  The two nested functions of \<open>batch_norm\<close>, with the variables they close over as
  arguments. The assignments are created inside \<open>batch_statistics\<close>, so they belong to
  that branch of the conditional and run only when it is taken; each reads the old value
  of its variable when it runs.
\<close>

definition batch_statistics ::
  "tensor \<Rightarrow> string \<Rightarrow> string \<Rightarrow> string \<Rightarrow> string \<Rightarrow> real \<Rightarrow> real \<Rightarrow> store
     \<Rightarrow> tensor \<times> store" where
  "batch_statistics x scale offset pop_mean pop_var epsilon decay =
     (let (batch_mean, batch_var) = moments x;
          train_mean_op = tf_assign pop_mean
            (\<lambda>s. Vec (map2 (+) (scale_vec (vec_of (read_var s pop_mean)) decay)
                                (scale_vec batch_mean (1 - decay))));
          train_var_op = tf_assign pop_var
            (\<lambda>s. Vec (map2 (+) (scale_vec (vec_of (read_var s pop_var)) decay)
                                (scale_vec batch_var (1 - decay))))
      in control_dependencies [train_mean_op, train_var_op]
           (\<lambda>s. batch_normalization x batch_mean batch_var
                   (vec_of (read_var s offset)) (vec_of (read_var s scale)) epsilon))"

definition population_statistics ::
  "tensor \<Rightarrow> string \<Rightarrow> string \<Rightarrow> string \<Rightarrow> string \<Rightarrow> real \<Rightarrow> store \<Rightarrow> tensor \<times> store" where
  "population_statistics x scale offset pop_mean pop_var epsilon =
     (\<lambda>s. (batch_normalization x (vec_of (read_var s pop_mean)) (vec_of (read_var s pop_var))
              (vec_of (read_var s offset)) (vec_of (read_var s scale)) epsilon, s))"

definition batch_norm ::
  "bool \<Rightarrow> initializer \<Rightarrow> string \<Rightarrow> tensor \<Rightarrow> string \<Rightarrow> bool \<Rightarrow> real \<Rightarrow> real \<Rightarrow> store
     \<Rightarrow> tf_error + (tensor \<times> store)" where
  "batch_norm reuse dflt outer x name_scope is_training epsilon decay s0 =
     (let scope = scope_join outer name_scope;
          training = tf_constant is_training;
          sz = width x
      in bind_result (batch_norm_variables reuse dflt scope sz s0)
           (\<lambda>((scale, offset, pop_mean, pop_var), s4).
              Inr (tf_cond training
                     (batch_statistics x scale offset pop_mean pop_var epsilon decay)
                     (population_statistics x scale offset pop_mean pop_var epsilon) s4)))"



section \<open>Elementwise operations, products and the loss\<close>

text \<open>
  The logistic sigmoid, and the library's elementwise binary operations: two dimensions
  are compatible when they are equal or one of them is 1, and a dimension of size 1 is
  repeated. Widths are static, so a width clash is a \<open>ValueError\<close> when the graph is
  built; the batch dimension is open, so a clash there is an \<open>InvalidArgumentError\<close> of
  the run.
\<close>

definition sigmoid :: "real \<Rightarrow> real" where
  "sigmoid x = 1 / (1 + exp (- x))"

definition bdim :: "nat \<Rightarrow> nat \<Rightarrow> nat option" where
  "bdim m n = (if m = n then Some m else if m = 1 then Some n else if n = 1 then Some m else None)"

definition stretch :: "nat \<Rightarrow> 'a list \<Rightarrow> 'a list" where
  "stretch n xs = (if length xs = n then xs else replicate n (hd xs))"

definition tf_binop :: "(real \<Rightarrow> real \<Rightarrow> real) \<Rightarrow> tensor \<Rightarrow> tensor \<Rightarrow> tf_error + tensor" where
  "tf_binop f a b =
     (case bdim (width a) (width b) of
        None \<Rightarrow> Inl ValueError
      | Some w \<Rightarrow>
          (case bdim (length (rows a)) (length (rows b)) of
             None \<Rightarrow> Inl InvalidArgumentError
           | Some n \<Rightarrow>
               Inr \<lparr> width = w,
                     rows = map2 (\<lambda>ra rb. map2 f (stretch w ra) (stretch w rb))
                              (stretch n (rows a)) (stretch n (rows b)) \<rparr>))"

text \<open>
  \<open>tf.matmul\<close> of a batch with a weight of static shape \<open>shp\<close>, \<open>bias_add\<close> of a vector to
  every row, and \<open>tf.nn.xw_plus_b\<close>.
\<close>

definition tf_matmul :: "tensor \<Rightarrow> nat list \<Rightarrow> matrix \<Rightarrow> tf_error + tensor" where
  "tf_matmul a shp w =
     (case shp of
        [i, out] \<Rightarrow>
          if width a = i
          then Inr \<lparr> width = out,
                     rows = map (\<lambda>row. map (\<lambda>k. sum_list (map2 (*) row (column w k))) [0..<out])
                              (rows a) \<rparr>
          else Inl ValueError
      | _ \<Rightarrow> Inl ValueError)"

definition bias_add :: "tensor \<Rightarrow> vec \<Rightarrow> tensor" where
  "bias_add t b = t\<lparr> rows := map (\<lambda>row. map2 (+) row b) (rows t) \<rparr>"






section \<open>Well-formed values, slices and the weights of the cell\<close>

text \<open>
  Reading a variable as a matrix; the invariant that a variable's value has the shape the
  variable was declared with, which the library maintains; and an initializer that
  returns values of the shape it is asked for.
\<close>

fun mat_of :: "tval \<Rightarrow> matrix" where
  "mat_of (Mat m) = m"
| "mat_of (Vec xs) = [xs]"

fun wf_value :: "nat list \<Rightarrow> tval \<Rightarrow> bool" where
  "wf_value [n] (Vec xs) = (length xs = n)"
| "wf_value [r, k] (Mat m) = (length m = r \<and> list_all (\<lambda>row. length row = k) m)"
| "wf_value shp t = False"

definition wf_variable :: "variable \<Rightarrow> bool" where
  "wf_variable v = wf_value (v_shape v) (v_val v)"

definition wf_store :: "store \<Rightarrow> bool" where
  "wf_store s = (\<forall>n v. s n = Some v \<longrightarrow> wf_variable v)"

definition wf_initializer :: "initializer \<Rightarrow> bool" where
  "wf_initializer init = (\<forall>shp t. init shp = Inr t \<longrightarrow> wf_value shp t)"

text \<open>
  Elementwise application of a function, \<open>array_ops.split(value, 4, axis=1)\<close> (the width
  must be divisible by four; the slices are contiguous, in order) and \<open>tf.matmul\<close> with a
  weight variable.
\<close>

definition tf_map :: "(real \<Rightarrow> real) \<Rightarrow> tensor \<Rightarrow> tensor" where
  "tf_map f t = t\<lparr> rows := map (map f) (rows t) \<rparr>"

definition tf_split4 :: "tensor \<Rightarrow> tf_error + (tensor \<times> tensor \<times> tensor \<times> tensor)" where
  "tf_split4 t =
     (if width t mod 4 = 0
      then let q = width t div 4;
               part = (\<lambda>p. \<lparr> width = q, rows = map (\<lambda>row. take q (drop (p * q) row)) (rows t) \<rparr>)
           in Inr (part 0, part 1, part 2, part 3)
      else Inl ValueError)"

definition matmul_var :: "tensor \<Rightarrow> store \<Rightarrow> string \<Rightarrow> tf_error + tensor" where
  "matmul_var a s n =
     (case s n of
        Some v \<Rightarrow> tf_matmul a (v_shape v) (mat_of (v_val v))
      | None \<Rightarrow> Inl ValueError)"

section \<open>The custom initializers\<close>

text \<open>
  \<open>orthogonal\<close> draws a matrix with \<open>np.random.normal\<close> and factors it with
  \<open>np.linalg.svd\<close>. Both are library code and the draw is random: the factorization
  \<open>svd\<close> and the draw \<open>normal\<close> (the sample for a requested shape) are parameters, one
  draw per call. \<open>reshape\<close> fails when the number of entries is not the product of the
  requested shape.
\<close>

type_synonym svd_fun = "ndarray \<Rightarrow> ndarray \<times> vec \<times> ndarray"

type_synonym normal_fun = "nat \<times> nat \<Rightarrow> ndarray"

definition chunks :: "nat \<Rightarrow> nat \<Rightarrow> 'a list \<Rightarrow> 'a list list" where
  "chunks r k xs = map (\<lambda>i. take k (drop (i * k) xs)) [0..<r]"

definition reshape :: "ndarray \<Rightarrow> nat list \<Rightarrow> tf_error + tval" where
  "reshape q shp =
     (let flat = concat (nd_data q) in
      if length flat = prod_list shp
      then (case shp of
              [n] \<Rightarrow> Inr (Vec flat)
            | [r, k] \<Rightarrow> Inr (Mat (chunks r k flat))
            | _ \<Rightarrow> Inl ValueError)
      else Inl ValueError)"

definition orthogonal :: "svd_fun \<Rightarrow> normal_fun \<Rightarrow> nat list \<Rightarrow> tf_error + tval" where
  "orthogonal svd normal shp =
     (case shp of
        [] \<Rightarrow> Inl IndexError
      | d0 # rest \<Rightarrow>
          (let flat_shape = (d0, prod_list rest);
               a = normal flat_shape;
               (u, sv, v) = svd a;
               q = (if (nd_rows u, nd_cols u) = flat_shape then u else v)
           in reshape q shp))"

definition orthogonal_initializer :: "svd_fun \<Rightarrow> normal_fun \<Rightarrow> initializer" where
  "orthogonal_initializer svd normal = (\<lambda>shp. orthogonal svd normal shp)"

text \<open>
  \<open>bn_lstm_identity_initializer\<close>: \<open>np.identity(size) * scale\<close>, and the slice assignment
  \<open>t[:, lo:hi] = v\<close> of a \<open>size\<close> by \<open>size\<close> block. The slice is clipped to the columns
  that exist; numpy accepts the assignment when the slice is as wide as the block, or
  when the block is 1 by 1 (its entry is then repeated). The three orthogonal blocks are
  three calls of \<open>orthogonal\<close>, each with its own draw, after the identity block.
\<close>

definition scaled_identity :: "nat \<Rightarrow> real \<Rightarrow> matrix" where
  "scaled_identity n c = map (\<lambda>r. map (\<lambda>k. (if r = k then 1 else 0) * c) [0..<n]) [0..<n]"

definition assign_columns :: "nat \<Rightarrow> nat \<Rightarrow> matrix \<Rightarrow> nat \<Rightarrow> nat \<Rightarrow> matrix \<Rightarrow> tf_error + matrix" where
  "assign_columns sz cols t lo hi v =
     (let lo' = min lo cols;
          hi' = max lo' (min hi cols);
          w = hi' - lo'
      in if w = sz \<or> sz = 1
         then Inr (map2 (\<lambda>row vrow. take lo' row
                                       @ (if w = sz then vrow else replicate w (hd vrow))
                                       @ drop hi' row) t v)
         else Inl ValueError)"

definition bn_lstm_identity_initializer ::
  "svd_fun \<Rightarrow> normal_fun \<Rightarrow> normal_fun \<Rightarrow> normal_fun \<Rightarrow> real \<Rightarrow> initializer" where
  "bn_lstm_identity_initializer svd normal1 normal2 normal3 scale =
     (\<lambda>shp. case shp of
        [] \<Rightarrow> Inl IndexError
      | [sz] \<Rightarrow> Inl IndexError
      | [sz, cols] \<Rightarrow>
          (let t = replicate sz (replicate cols 0) in
           bind_result (assign_columns sz cols t sz (sz * 2) (scaled_identity sz scale)) (\<lambda>t.
           bind_result (orthogonal svd normal1 [sz, sz]) (\<lambda>q1.
           bind_result (assign_columns sz cols t 0 sz (mat_of q1)) (\<lambda>t.
           bind_result (orthogonal svd normal2 [sz, sz]) (\<lambda>q2.
           bind_result (assign_columns sz cols t (sz * 2) (sz * 3) (mat_of q2)) (\<lambda>t.
           bind_result (orthogonal svd normal3 [sz, sz]) (\<lambda>q3.
           bind_result (assign_columns sz cols t (sz * 3) cols (mat_of q3)) (\<lambda>t.
           Inr (Mat t)))))))))
      | _ \<Rightarrow> Inl ValueError)"

section \<open>BatchNormLSTMCell\<close>

text \<open>
  The cell object holds the constructor's arguments; the defaults are those of
  \<open>__init__\<close>. The scope of the cell reuses its variables when \<open>reuse\<close> is \<open>True\<close>; with
  \<open>None\<close> or \<open>False\<close> it creates them, the enclosing scope being taken as one that does
  not reuse.
\<close>

record BatchNormLSTMCell =
  cell_num_units :: nat
  cell_is_training :: bool
  cell_forget_bias :: real
  cell_activation :: "real \<Rightarrow> real"
  cell_reuse :: "bool option"

definition BatchNormLSTMCell_init ::
  "nat \<Rightarrow> bool \<Rightarrow> real \<Rightarrow> (real \<Rightarrow> real) \<Rightarrow> bool option \<Rightarrow> BatchNormLSTMCell" where
  "BatchNormLSTMCell_init num_units is_training forget_bias activation reuse =
     \<lparr> cell_num_units = num_units, cell_is_training = is_training,
       cell_forget_bias = forget_bias, cell_activation = activation, cell_reuse = reuse \<rparr>"

definition BatchNormLSTMCell_default :: "nat \<Rightarrow> BatchNormLSTMCell" where
  "BatchNormLSTMCell_default num_units = BatchNormLSTMCell_init num_units False 1.0 tanh None"

definition state_size :: "BatchNormLSTMCell \<Rightarrow> nat \<times> nat" where
  "state_size self = (cell_num_units self, cell_num_units self)"

definition output_size :: "BatchNormLSTMCell \<Rightarrow> nat" where
  "output_size self = cell_num_units self"

text \<open>
  \<open>__call__\<close>, line by line. \<open>rnd k\<close> is the \<open>k\<close>-th draw of the random generator: one for
  \<open>W_xh\<close>, three for \<open>W_hh\<close>, consumed only when the variables are created. The source
  names the four slices \<open>i\<close>, \<open>j\<close>, \<open>f\<close> and \<open>o\<close>. The three batch normalizations use the
  default \<open>epsilon\<close> and \<open>decay\<close>.
\<close>

definition cell_call ::
  "BatchNormLSTMCell \<Rightarrow> svd_fun \<Rightarrow> (nat \<Rightarrow> normal_fun) \<Rightarrow> initializer \<Rightarrow> tensor \<Rightarrow> tensor \<times> tensor
     \<Rightarrow> string option \<Rightarrow> store \<Rightarrow> tf_error + ((tensor \<times> (tensor \<times> tensor)) \<times> store)" where
  "cell_call self svd rnd dflt inputs state scope s0 =
     (let vs = (case scope of None \<Rightarrow> ''BatchNormLSTMCell''
                | Some n \<Rightarrow> if n = [] then ''BatchNormLSTMCell'' else n);
          reuse = (cell_reuse self = Some True);
          (c, h) = state;
          input_size = width inputs;
          num_units = cell_num_units self
      in bind_result (get_variable reuse dflt vs ''W_xh'' [input_size, 4 * num_units]
                        (Some (orthogonal_initializer svd (rnd 0))) True s0) (\<lambda>(W_xh, s1).
         bind_result (get_variable reuse dflt vs ''W_hh'' [num_units, 4 * num_units]
                        (Some (bn_lstm_identity_initializer svd (rnd 1) (rnd 2) (rnd 3) 0.95))
                        True s1) (\<lambda>(W_hh, s2).
         bind_result (get_variable reuse dflt vs ''bias'' [4 * num_units] None True s2)
                        (\<lambda>(bias, s3).
         bind_result (matmul_var inputs s3 W_xh) (\<lambda>xh.
         bind_result (matmul_var h s3 W_hh) (\<lambda>hh.
         bind_result (batch_norm reuse dflt vs xh ''xh'' (cell_is_training self)
                        (1/1000) (999/1000) s3) (\<lambda>(bn_xh, s4).
         bind_result (batch_norm reuse dflt vs hh ''hh'' (cell_is_training self)
                        (1/1000) (999/1000) s4) (\<lambda>(bn_hh, s5).
         bind_result (tf_binop (+) bn_xh bn_hh) (\<lambda>bn_sum.
         let hidden = bias_add bn_sum (vec_of (read_var s5 bias)) in
         bind_result (tf_split4 hidden) (\<lambda>(i_gate, j_gate, f_gate, o_gate).
         bind_result (tf_binop (*) c
                        (tf_map sigmoid (tf_map (\<lambda>v. v + cell_forget_bias self) f_gate))) (\<lambda>keep.
         bind_result (tf_binop (*) (tf_map sigmoid i_gate) (tf_map (cell_activation self) j_gate))
                        (\<lambda>new_input.
         bind_result (tf_binop (+) keep new_input) (\<lambda>new_c.
         bind_result (batch_norm reuse dflt vs new_c ''c'' (cell_is_training self)
                        (1/1000) (999/1000) s5) (\<lambda>(bn_new_c, s6).
         bind_result (tf_binop (*) (tf_map (cell_activation self) bn_new_c) (tf_map sigmoid o_gate))
                        (\<lambda>new_h.
         Inr ((new_h, (new_c, new_h)), s6))))))))))))))))"


section \<open>The recurrence as the specification writes it\<close>

text \<open>
  A tensor given by its entries, and the gate equations of the specification indexed into
  the pre-activation \<open>hidden\<close>: columns \<open>0..n\<close> are the input gate, \<open>n..2n\<close> the candidate,
  \<open>2n..3n\<close> the forget gate and \<open>3n..4n\<close> the output gate.
\<close>

definition tensor_of :: "nat \<Rightarrow> nat \<Rightarrow> (nat \<Rightarrow> nat \<Rightarrow> real) \<Rightarrow> tensor" where
  "tensor_of w b g = \<lparr> width = w, rows = map (\<lambda>r. map (\<lambda>k. g r k) [0..<w]) [0..<b] \<rparr>"

definition lstm_hidden :: "tensor \<Rightarrow> tensor \<Rightarrow> vec \<Rightarrow> nat \<Rightarrow> nat \<Rightarrow> real" where
  "lstm_hidden bn_xh bn_hh bias = (\<lambda>r q. rows bn_xh ! r ! q + rows bn_hh ! r ! q + bias ! q)"

definition lstm_new_c ::
  "nat \<Rightarrow> real \<Rightarrow> (real \<Rightarrow> real) \<Rightarrow> tensor \<Rightarrow> (nat \<Rightarrow> nat \<Rightarrow> real) \<Rightarrow> tensor" where
  "lstm_new_c n forget_bias act c hidden =
     tensor_of n (length (rows c))
       (\<lambda>r k. rows c ! r ! k * sigmoid (hidden r (2 * n + k) + forget_bias)
              + sigmoid (hidden r k) * act (hidden r (n + k)))"

definition lstm_new_h ::
  "nat \<Rightarrow> (real \<Rightarrow> real) \<Rightarrow> tensor \<Rightarrow> (nat \<Rightarrow> nat \<Rightarrow> real) \<Rightarrow> tensor" where
  "lstm_new_h n act bn_new_c hidden =
     tensor_of n (length (rows bn_new_c))
       (\<lambda>r k. act (rows bn_new_c ! r ! k) * sigmoid (hidden r (3 * n + k)))"

text \<open>
  Orthonormal columns and rows of an \<open>n\<close> by \<open>n\<close> matrix, the block of columns
  \<open>p * n..(p + 1) * n\<close> of a matrix, and what \<open>np.linalg.svd\<close> documents for a square
  matrix: the left factor \<open>u\<close> is square of the same size and orthogonal.
\<close>

definition orthonormal_columns :: "nat \<Rightarrow> matrix \<Rightarrow> bool" where
  "orthonormal_columns n q =
     (\<forall>i<n. \<forall>j<n. (\<Sum>r<n. q ! r ! i * q ! r ! j) = (if i = j then 1 else 0))"

definition orthonormal_rows :: "nat \<Rightarrow> matrix \<Rightarrow> bool" where
  "orthonormal_rows n q =
     (\<forall>i<n. \<forall>j<n. (\<Sum>k<n. q ! i ! k * q ! j ! k) = (if i = j then 1 else 0))"

definition svd_square_contract :: "svd_fun \<Rightarrow> normal_fun \<Rightarrow> nat \<Rightarrow> ndarray \<Rightarrow> bool" where
  "svd_square_contract svd normal n u =
     ((\<exists>sv v. svd (normal (n, n)) = (u, sv, v))
      \<and> nd_rows u = n \<and> nd_cols u = n
      \<and> length (nd_data u) = n \<and> list_all (\<lambda>row. length row = n) (nd_data u)
      \<and> orthonormal_columns n (nd_data u) \<and> orthonormal_rows n (nd_data u))"

definition column_block :: "matrix \<Rightarrow> nat \<Rightarrow> nat \<Rightarrow> matrix" where
  "column_block t n p = map (\<lambda>row. take n (drop (p * n) row)) t"

section \<open>Example values\<close>

text \<open>
  A store holding the four variables of the scope \<open>cell/xh\<close> for one feature, with their
  initial values, and a batch of two rows with mean 3 and variance 4.
\<close>

definition example_store :: store where
  "example_store =
     [''cell/xh/scale'' \<mapsto> \<lparr> v_shape = [1], v_val = Vec [1/10], v_trainable = True \<rparr>,
      ''cell/xh/offset'' \<mapsto> \<lparr> v_shape = [1], v_val = Vec [0], v_trainable = True \<rparr>,
      ''cell/xh/pop_mean'' \<mapsto> \<lparr> v_shape = [1], v_val = Vec [0], v_trainable = False \<rparr>,
      ''cell/xh/pop_var'' \<mapsto> \<lparr> v_shape = [1], v_val = Vec [1], v_trainable = False \<rparr>]"

definition example_batch :: tensor where
  "example_batch = \<lparr> width = 1, rows = [[1], [5]] \<rparr>"

text \<open>
  A cell of one unit in a reusing scope with all fifteen variables in place, a 1 by 1
  factorization and constant draws.
\<close>

definition example_cell :: BatchNormLSTMCell where
  "example_cell = BatchNormLSTMCell_init 1 False 1 tanh (Some True)"

definition example_svd :: svd_fun where
  "example_svd = (\<lambda>a. (\<lparr> nd_rows = 1, nd_cols = 1, nd_data = [[1]] \<rparr>, [1/2],
                        \<lparr> nd_rows = 1, nd_cols = 1, nd_data = [[1]] \<rparr>))"

definition example_rnd :: "nat \<Rightarrow> normal_fun" where
  "example_rnd = (\<lambda>i shp. \<lparr> nd_rows = fst shp, nd_cols = snd shp,
                              nd_data = replicate (fst shp) (replicate (snd shp) (1/2)) \<rparr>)"

definition example_site :: "string \<Rightarrow> nat \<Rightarrow> store \<Rightarrow> store" where
  "example_site scope sz s =
     s(scope @ ''/scale'' \<mapsto> \<lparr> v_shape = [sz], v_val = Vec (replicate sz (1/10)), v_trainable = True \<rparr>,
       scope @ ''/offset'' \<mapsto> \<lparr> v_shape = [sz], v_val = Vec (replicate sz 0), v_trainable = True \<rparr>,
       scope @ ''/pop_mean'' \<mapsto> \<lparr> v_shape = [sz], v_val = Vec (replicate sz 0), v_trainable = False \<rparr>,
       scope @ ''/pop_var'' \<mapsto> \<lparr> v_shape = [sz], v_val = Vec (replicate sz 1), v_trainable = False \<rparr>)"

definition example_cell_store :: store where
  "example_cell_store =
     example_site ''BatchNormLSTMCell/c'' 1
       (example_site ''BatchNormLSTMCell/hh'' 4
          (example_site ''BatchNormLSTMCell/xh'' 4
             [''BatchNormLSTMCell/W_xh'' \<mapsto>
                \<lparr> v_shape = [1, 4], v_val = Mat [[1, 1, 1, 1]], v_trainable = True \<rparr>,
              ''BatchNormLSTMCell/W_hh'' \<mapsto>
                \<lparr> v_shape = [1, 4], v_val = Mat [[1, 95/100, 1, 1]], v_trainable = True \<rparr>,
              ''BatchNormLSTMCell/bias'' \<mapsto>
                \<lparr> v_shape = [4], v_val = Vec [1, 2, 3, 4], v_trainable = True \<rparr>]))"

definition example_zero :: tensor where
  "example_zero = \<lparr> width = 1, rows = [[0]] \<rparr>"

definition example_c :: tensor where
  "example_c = \<lparr> width = 1, rows = [[5]] \<rparr>"

section \<open>TextRNN: properties of the construction\<close>

lemma assign_W_other:
  "embedding_type \<noteq> 0 \<Longrightarrow> embedding_type \<noteq> 1 \<Longrightarrow>
   assign_W vocab_size embedding_size embedding_type (Some p) = None"
  by (simp add: assign_W_def)

text \<open>
  Claim C10. With a pretrained embedding supplied and an \<open>embedding_type\<close> other than 0
  and 1, neither assignment to \<open>self.W\<close> runs, so the attribute stays unassigned and the
  constructor fails with an attribute error at the embedding lookup.
\<close>

theorem TextRNN_init_unassigned_W:
  assumes "embedding_type \<noteq> 0" and "embedding_type \<noteq> 1"
  shows "assign_W vocab_size embedding_size embedding_type (Some p) = None
       \<and> TextRNN_init sequence_length num_classes vocab_size hidden_size embedding_size
            embedding_type l2_reg_lambda (Some p) = Inl AttributeError"
  using assms
  by (simp add: TextRNN_init_def assign_W_other read_attribute_def bind_result_def)

theorem TextRNN_init_unassigned_W_witness:
  "(2::int) \<noteq> 0 \<and> (2::int) \<noteq> 1
   \<and> assign_W 100 8 2 (Some \<lparr> nd_rows = 1, nd_cols = 1, nd_data = [[0]] \<rparr>) = None
   \<and> TextRNN_init 5 3 100 6 8 2 0 (Some \<lparr> nd_rows = 1, nd_cols = 1, nd_data = [[0]] \<rparr>)
       = Inl AttributeError"
  using TextRNN_init_unassigned_W [of 2 100 8 "\<lparr> nd_rows = 1, nd_cols = 1, nd_data = [[0]] \<rparr>" 5 3 6 0]
  by simp

text \<open>
  Claim C9, as stated, fails: the constructor never compares the supplied array with
  \<open>vocab_size\<close> and \<open>embedding_size\<close>. A 2 by 3 array with the configuration 100 by 8
  is accepted and becomes the embedding table.
\<close>

theorem TextRNN_init_shape_mismatch_accepted:
  "TextRNN_init 5 3 100 6 8 0 0
      (Some \<lparr> nd_rows = 2, nd_cols = 3, nd_data = [[1, 2, 3], [4, 5, 6]] \<rparr>)
    = Inr \<lparr> input_x = [None, Some 5], input_y = [None, Some 3],
            embedding_W = PretrainedConstant
              \<lparr> nd_rows = 2, nd_cols = 3, nd_data = [[1, 2, 3], [4, 5, 6]] \<rparr>,
            embedded_chars = [None, Some 5, Some 3],
            output_rnn_last = [None, Some 12],
            logits = [None, Some 3], loss = [] \<rparr>
   \<and> [2, 3] \<noteq> [100, 8 :: nat]"
  by (simp add: TextRNN_init_def assign_W_def read_attribute_def bind_result_def
        embedding_lookup_def)

text \<open>
  Claim C9, amended. With a pretrained embedding supplied and \<open>embedding_type\<close> 0 or 1,
  construction succeeds whatever the configured \<open>vocab_size\<close> and \<open>embedding_size\<close> are:
  the table and the embedded sequence take their dimensions from the array, frozen for
  type 0 and trainable for type 1, and the configured sizes are not consulted.
\<close>

theorem TextRNN_init_pretrained_shape:
  assumes "embedding_type = 0 \<or> embedding_type = 1"
  shows "\<exists>g. TextRNN_init sequence_length num_classes vocab_size hidden_size embedding_size
              embedding_type l2_reg_lambda (Some p) = Inr g
           \<and> embedding_shape (embedding_W g) = [nd_rows p, nd_cols p]
           \<and> embedding_trainable (embedding_W g) = (embedding_type = 1)
           \<and> embedded_chars g = [None, Some sequence_length, Some (nd_cols p)]
           \<and> TextRNN_init sequence_length num_classes vocab_size' hidden_size embedding_size'
              embedding_type l2_reg_lambda (Some p) = Inr g"
  using assms
  by (auto simp add: TextRNN_init_def assign_W_def read_attribute_def bind_result_def
        embedding_lookup_def)

theorem TextRNN_init_pretrained_shape_witness:
  "((1::int) = 0 \<or> (1::int) = 1)
   \<and> (\<exists>g. TextRNN_init 5 3 100 6 8 1 0
              (Some \<lparr> nd_rows = 2, nd_cols = 3, nd_data = [[1, 2, 3], [4, 5, 6]] \<rparr>) = Inr g
           \<and> embedding_shape (embedding_W g) = [2, 3]
           \<and> embedding_trainable (embedding_W g)
           \<and> embedded_chars g = [None, Some 5, Some 3])"
  using TextRNN_init_pretrained_shape
    [of 1 5 3 100 6 8 0 "\<lparr> nd_rows = 2, nd_cols = 3, nd_data = [[1, 2, 3], [4, 5, 6]] \<rparr>" 100 8]
  by auto

section \<open>Variables: auxiliary facts\<close>


lemma scope_join_inj [simp]: "scope_join sc a = scope_join sc b \<longleftrightarrow> a = b"
  by (simp add: scope_join_def)

lemma get_variable_Inr:
  assumes "get_variable reuse dflt scope name shp init tr s = Inr (h, s')"
  shows "h = scope_join scope name"
    and "\<exists>v. s' (scope_join scope name) = Some v \<and> v_shape v = shp"
    and "\<And>n. n \<noteq> scope_join scope name \<Longrightarrow> s' n = s n"
    and "\<And>n. s n \<noteq> None \<Longrightarrow> s' n = s n"
    and "reuse \<Longrightarrow> s' = s"
  using assms
  by (auto simp add: get_variable_def Let_def bind_result_def
      split: option.splits if_splits sum.splits)

lemma get_variable_reuse:
  "s (scope_join scope name) = Some v \<Longrightarrow> v_shape v = shp \<Longrightarrow>
   get_variable True dflt scope name shp init tr s = Inr (scope_join scope name, s)"
  by (simp add: get_variable_def)

lemma get_variable_create:
  "s (scope_join scope name) = None \<Longrightarrow> (case init of None \<Rightarrow> dflt | Some i \<Rightarrow> i) shp = Inr x \<Longrightarrow>
   get_variable False dflt scope name shp init tr s
     = Inr (scope_join scope name,
            s(scope_join scope name \<mapsto> \<lparr> v_shape = shp, v_val = x, v_trainable = tr \<rparr>))"
  by (simp add: get_variable_def bind_result_def Let_def)

lemma batch_norm_variables_Inr:
  assumes "batch_norm_variables reuse dflt scope sz s0 = Inr (hs, s4)"
  shows "hs = (scope_join scope ''scale'', scope_join scope ''offset'',
               scope_join scope ''pop_mean'', scope_join scope ''pop_var'')"
    and "\<exists>v. s4 (scope_join scope ''scale'') = Some v \<and> v_shape v = [sz]"
    and "\<exists>v. s4 (scope_join scope ''offset'') = Some v \<and> v_shape v = [sz]"
    and "\<exists>v. s4 (scope_join scope ''pop_mean'') = Some v \<and> v_shape v = [sz]"
    and "\<exists>v. s4 (scope_join scope ''pop_var'') = Some v \<and> v_shape v = [sz]"
    and "\<And>n. s0 n \<noteq> None \<Longrightarrow> s4 n = s0 n"
    and "reuse \<Longrightarrow> s4 = s0"
proof -
  from assms obtain h1 h2 h3 h4 s1 s2 s3 where
    g1: "get_variable reuse dflt scope ''scale'' [sz] (Some (constant_initializer 0.1)) True s0 = Inr (h1, s1)" and
    g2: "get_variable reuse dflt scope ''offset'' [sz] None True s1 = Inr (h2, s2)" and
    g3: "get_variable reuse dflt scope ''pop_mean'' [sz] (Some zeros_initializer) False s2 = Inr (h3, s3)" and
    g4: "get_variable reuse dflt scope ''pop_var'' [sz] (Some ones_initializer) False s3 = Inr (h4, s4)" and
    hs: "hs = (h1, h2, h3, h4)"
    by (auto simp add: batch_norm_variables_def bind_result_def split: sum.splits prod.splits)
  note a = get_variable_Inr[OF g1] and b = get_variable_Inr[OF g2] and c = get_variable_Inr[OF g3] and d = get_variable_Inr[OF g4]
  show "hs = (scope_join scope ''scale'', scope_join scope ''offset'',
               scope_join scope ''pop_mean'', scope_join scope ''pop_var'')"
    using hs a(1) b(1) c(1) d(1) by simp
  show "\<exists>v. s4 (scope_join scope ''scale'') = Some v \<and> v_shape v = [sz]" using a(2) b(3) c(3) d(3) by simp
  show "\<exists>v. s4 (scope_join scope ''offset'') = Some v \<and> v_shape v = [sz]" using b(2) c(3) d(3) by simp
  show "\<exists>v. s4 (scope_join scope ''pop_mean'') = Some v \<and> v_shape v = [sz]" using c(2) d(3) by simp
  show "\<exists>v. s4 (scope_join scope ''pop_var'') = Some v \<and> v_shape v = [sz]" using d(2) by simp
  show "s4 n = s0 n" if "s0 n \<noteq> None" for n
    using that a(4) b(4) c(4) d(4) by metis
  show "s4 = s0" if reuse using that a(5) b(5) c(5) d(5) by simp
qed

lemma batch_norm_variables_reuse:
  assumes "s (scope_join scope ''scale'') = Some v1" "v_shape v1 = [sz]"
    and "s (scope_join scope ''offset'') = Some v2" "v_shape v2 = [sz]"
    and "s (scope_join scope ''pop_mean'') = Some v3" "v_shape v3 = [sz]"
    and "s (scope_join scope ''pop_var'') = Some v4" "v_shape v4 = [sz]"
  shows "batch_norm_variables True dflt scope sz s
     = Inr ((scope_join scope ''scale'', scope_join scope ''offset'',
               scope_join scope ''pop_mean'', scope_join scope ''pop_var''), s)"
  using assms by (simp add: batch_norm_variables_def get_variable_reuse bind_result_def)

lemma batch_norm_variables_create:
  assumes "s (scope_join scope ''scale'') = None"
    and "s (scope_join scope ''offset'') = None"
    and "s (scope_join scope ''pop_mean'') = None"
    and "s (scope_join scope ''pop_var'') = None"
    and "dflt [sz] = Inr d"
  shows "batch_norm_variables False dflt scope sz s
     = Inr ((scope_join scope ''scale'', scope_join scope ''offset'',
               scope_join scope ''pop_mean'', scope_join scope ''pop_var''),
            s(scope_join scope ''scale'' \<mapsto> \<lparr> v_shape = [sz], v_val = Vec (replicate sz 0.1), v_trainable = True \<rparr>,
              scope_join scope ''offset'' \<mapsto> \<lparr> v_shape = [sz], v_val = d, v_trainable = True \<rparr>,
              scope_join scope ''pop_mean'' \<mapsto> \<lparr> v_shape = [sz], v_val = Vec (replicate sz 0), v_trainable = False \<rparr>,
              scope_join scope ''pop_var'' \<mapsto> \<lparr> v_shape = [sz], v_val = Vec (replicate sz 1), v_trainable = False \<rparr>))"
  using assms
  by (simp add: batch_norm_variables_def get_variable_create bind_result_def
        constant_initializer_def zeros_initializer_def ones_initializer_def)


lemma nth_map2:
  "k < length xs \<Longrightarrow> k < length ys \<Longrightarrow> map2 f xs ys ! k = f (xs ! k) (ys ! k)"
  by simp

lemma moments_length:
  "moments x = (m, v) \<Longrightarrow> length m = width x \<and> length v = width x"
  by (auto simp add: moments_def Let_def)

lemma batch_normalization_shape:
  "width (batch_normalization x m v off sc eps) = width x"
  "length (rows (batch_normalization x m v off sc eps)) = length (rows x)"
  by (simp_all add: batch_normalization_def Let_def)

lemma batch_normalization_nth:
  assumes "r < length (rows x)" and "k < length (rows x ! r)"
    and "k < length m" and "k < length v" and "k < length off" and "k < length sc"
  shows "rows (batch_normalization x m v off sc eps) ! r ! k
         = (rows x ! r ! k - m ! k) * (sc ! k / sqrt (v ! k + eps)) + off ! k"
  using assms by (simp add: batch_normalization_def Let_def algebra_simps diff_divide_distrib)

lemma batch_normalization_wf:
  assumes "wf_tensor x" and "length m = width x" and "length v = width x"
    and "length off = width x" and "length sc = width x"
  shows "wf_tensor (batch_normalization x m v off sc eps)"
  using assms by (simp add: batch_normalization_def Let_def wf_tensor_def list_all_iff)

lemma ema_nth:
  assumes "k < length old" and "k < length stat"
  shows "map2 (+) (scale_vec old decay) (scale_vec stat (1 - decay)) ! k
         = old ! k * decay + stat ! k * (1 - decay)"
  using assms by (simp add: scale_vec_def)

lemma batch_norm_inference_run:
  assumes "batch_norm_variables reuse dflt (scope_join outer ns) (width x) s0 = Inr (hs, s4)"
  shows "batch_norm reuse dflt outer x ns False eps decay s0
     = Inr (batch_normalization x
              (vec_of (read_var s4 (scope_join (scope_join outer ns) ''pop_mean'')))
              (vec_of (read_var s4 (scope_join (scope_join outer ns) ''pop_var'')))
              (vec_of (read_var s4 (scope_join (scope_join outer ns) ''offset'')))
              (vec_of (read_var s4 (scope_join (scope_join outer ns) ''scale''))) eps, s4)"
  using assms batch_norm_variables_Inr(1)[OF assms]
  by (simp add: batch_norm_def bind_result_def tf_cond_def tf_constant_def
        population_statistics_def)

lemma batch_norm_training_run:
  assumes vars: "batch_norm_variables reuse dflt (scope_join outer ns) (width x) s0 = Inr (hs, s4)"
    and mv: "moments x = (m, v)"
    and pm: "s4 (scope_join (scope_join outer ns) ''pop_mean'') = Some pm"
    and pv: "s4 (scope_join (scope_join outer ns) ''pop_var'') = Some pv"
  shows "batch_norm reuse dflt outer x ns True eps decay s0
     = Inr (batch_normalization x m v
              (vec_of (read_var s4 (scope_join (scope_join outer ns) ''offset'')))
              (vec_of (read_var s4 (scope_join (scope_join outer ns) ''scale''))) eps,
            s4(scope_join (scope_join outer ns) ''pop_mean'' \<mapsto>
                 pm\<lparr> v_val := Vec (map2 (+) (scale_vec (vec_of (v_val pm)) decay)
                                             (scale_vec m (1 - decay))) \<rparr>,
               scope_join (scope_join outer ns) ''pop_var'' \<mapsto>
                 pv\<lparr> v_val := Vec (map2 (+) (scale_vec (vec_of (v_val pv)) decay)
                                             (scale_vec v (1 - decay))) \<rparr>))"
  using vars batch_norm_variables_Inr(1)[OF vars] mv pm pv
  by (simp add: batch_norm_def bind_result_def tf_cond_def tf_constant_def
        batch_statistics_def control_dependencies_def tf_assign_def read_var_def)



section \<open>Batch normalization: mode selection\<close>



section \<open>Batch normalization: training and inference\<close>

lemma example_store_variables:
  "batch_norm_variables True dflt (scope_join ''cell'' ''xh'') (width example_batch) example_store
     = Inr ((''cell/xh/scale'', ''cell/xh/offset'', ''cell/xh/pop_mean'', ''cell/xh/pop_var''),
            example_store)"
  by (simp add: batch_norm_variables_def get_variable_def bind_result_def scope_join_def
        example_store_def example_batch_def Let_def)

lemma example_batch_moments: "moments example_batch = ([3], [4])"
  by (simp add: moments_def column_def reduce_mean_def power2_eq_square example_batch_def)

text \<open>
  Claim C3. Let the variables of the scope be in place (looked up in a reusing scope,
  created otherwise) with store \<open>s4\<close>, and let \<open>m\<close> and \<open>v\<close> be the batch mean and variance
  of \<open>x\<close>. A training-mode call returns; the store it returns holds
  \<open>pop_mean * decay + m * (1 - decay)\<close> and \<open>pop_var * decay + v * (1 - decay)\<close>, component
  by component, computed from the values the variables had, and nothing else changed;
  the tensor it returns is \<open>(x - m) * scale / sqrt (v + epsilon) + offset\<close>, normalized with
  the batch statistics.
\<close>

theorem batch_norm_training_update:
  assumes vars: "batch_norm_variables reuse dflt (scope_join outer ns) (width x) s0 = Inr (hs, s4)"
    and mv: "moments x = (m, v)"
  shows "\<exists>pm pv y s'.
      s4 (scope_join (scope_join outer ns) ''pop_mean'') = Some pm
    \<and> s4 (scope_join (scope_join outer ns) ''pop_var'') = Some pv
    \<and> (reuse \<longrightarrow> s4 = s0)
    \<and> batch_norm reuse dflt outer x ns True eps decay s0 = Inr (y, s')
    \<and> s' = s4(scope_join (scope_join outer ns) ''pop_mean'' \<mapsto>
                 pm\<lparr> v_val := Vec (map2 (+) (scale_vec (vec_of (v_val pm)) decay)
                                             (scale_vec m (1 - decay))) \<rparr>,
               scope_join (scope_join outer ns) ''pop_var'' \<mapsto>
                 pv\<lparr> v_val := Vec (map2 (+) (scale_vec (vec_of (v_val pv)) decay)
                                             (scale_vec v (1 - decay))) \<rparr>)
    \<and> (\<forall>k. k < width x \<and> k < length (vec_of (v_val pm)) \<longrightarrow>
          vec_of (read_var s' (scope_join (scope_join outer ns) ''pop_mean'')) ! k
            = vec_of (v_val pm) ! k * decay + m ! k * (1 - decay))
    \<and> (\<forall>k. k < width x \<and> k < length (vec_of (v_val pv)) \<longrightarrow>
          vec_of (read_var s' (scope_join (scope_join outer ns) ''pop_var'')) ! k
            = vec_of (v_val pv) ! k * decay + v ! k * (1 - decay))
    \<and> y = batch_normalization x m v
            (vec_of (read_var s4 (scope_join (scope_join outer ns) ''offset'')))
            (vec_of (read_var s4 (scope_join (scope_join outer ns) ''scale''))) eps
    \<and> (\<forall>r k. r < length (rows x) \<and> k < length (rows x ! r) \<and> k < width x
            \<and> k < length (vec_of (read_var s4 (scope_join (scope_join outer ns) ''offset'')))
            \<and> k < length (vec_of (read_var s4 (scope_join (scope_join outer ns) ''scale''))) \<longrightarrow>
          rows y ! r ! k
            = (rows x ! r ! k - m ! k)
                * (vec_of (read_var s4 (scope_join (scope_join outer ns) ''scale'')) ! k
                     / sqrt (v ! k + eps))
              + vec_of (read_var s4 (scope_join (scope_join outer ns) ''offset'')) ! k)"
proof -
  let ?pmn = "scope_join (scope_join outer ns) ''pop_mean''"
  let ?pvn = "scope_join (scope_join outer ns) ''pop_var''"
  from batch_norm_variables_Inr(4)[OF vars] obtain pm where pm: "s4 ?pmn = Some pm" by blast
  from batch_norm_variables_Inr(5)[OF vars] obtain pv where pv: "s4 ?pvn = Some pv" by blast
  have len: "length m = width x" "length v = width x"
    using moments_length[OF mv] by simp_all
  note run = batch_norm_training_run[OF vars mv pm pv, of eps decay]
  have ne: "?pmn \<noteq> ?pvn" by simp
  show ?thesis
    apply (rule exI[of _ pm], rule exI[of _ pv])
    apply (intro exI conjI)
            apply (rule pm)
           apply (rule pv)
          apply (use batch_norm_variables_Inr(7)[OF vars] in blast)
         apply (rule run)
        apply (rule refl)
    using ne len apply (simp add: read_var_def ema_nth)
    using ne len apply (simp add: read_var_def ema_nth)
     apply (rule refl)
    using len apply (simp add: batch_normalization_nth)
    done
qed


theorem batch_norm_training_update_witness:
  "\<exists>y s'. batch_norm True (fill 0) ''cell'' example_batch ''xh'' True (1/1000) (999/1000) example_store
            = Inr (y, s')
        \<and> read_var s' ''cell/xh/pop_mean'' = Vec [3/1000]
        \<and> read_var s' ''cell/xh/pop_var'' = Vec [1003/1000]
        \<and> read_var s' ''cell/xh/scale'' = Vec [1/10]
        \<and> rows y ! 0 ! 0 = (1 - 3) * ((1/10) / sqrt (4 + 1/1000)) + 0"
proof -
  from batch_norm_training_update
         [OF example_store_variables example_batch_moments, of "fill 0" "1/1000" "999/1000"]
  obtain pm pv y s' where
    pm: "example_store (scope_join (scope_join ''cell'' ''xh'') ''pop_mean'') = Some pm" and
    pv: "example_store (scope_join (scope_join ''cell'' ''xh'') ''pop_var'') = Some pv" and
    run: "batch_norm True (fill 0) ''cell'' example_batch ''xh'' True (1/1000) (999/1000)
            example_store = Inr (y, s')" and
    s': "s' = example_store(scope_join (scope_join ''cell'' ''xh'') ''pop_mean'' \<mapsto>
                 pm\<lparr> v_val := Vec (map2 (+) (scale_vec (vec_of (v_val pm)) (999/1000))
                                             (scale_vec [3] (1 - 999/1000))) \<rparr>,
               scope_join (scope_join ''cell'' ''xh'') ''pop_var'' \<mapsto>
                 pv\<lparr> v_val := Vec (map2 (+) (scale_vec (vec_of (v_val pv)) (999/1000))
                                             (scale_vec [4] (1 - 999/1000))) \<rparr>)" and
    y: "y = batch_normalization example_batch [3] [4]
            (vec_of (read_var example_store (scope_join (scope_join ''cell'' ''xh'') ''offset'')))
            (vec_of (read_var example_store (scope_join (scope_join ''cell'' ''xh'') ''scale''))) (1/1000)"
    by blast
  from pm have pm': "pm = \<lparr> v_shape = [1], v_val = Vec [0], v_trainable = False \<rparr>"
    by (simp add: example_store_def scope_join_def)
  from pv have pv': "pv = \<lparr> v_shape = [1], v_val = Vec [1], v_trainable = False \<rparr>"
    by (simp add: example_store_def scope_join_def)
  have "read_var s' ''cell/xh/pop_mean'' = Vec [3/1000]"
    by (simp add: s' pm' read_var_def scope_join_def scale_vec_def)
  moreover have "read_var s' ''cell/xh/pop_var'' = Vec [1003/1000]"
    by (simp add: s' pv' read_var_def scope_join_def scale_vec_def)
  moreover have "read_var s' ''cell/xh/scale'' = Vec [1/10]"
    by (simp add: s' read_var_def scope_join_def example_store_def)
  moreover have "rows y ! 0 ! 0 = (1 - 3) * ((1/10) / sqrt (4 + 1/1000)) + 0"
    by (simp add: y batch_normalization_def example_batch_def read_var_def scope_join_def
          example_store_def)
  ultimately show ?thesis using run by blast
qed

text \<open>
  Claim C4. Let the variables of the scope be in place with store \<open>s4\<close>. An inference-mode
  call returns exactly that store: every variable that existed before the call keeps its
  value, and in a reusing scope the store is the one the call started from. The tensor
  it returns is \<open>(x - pop_mean) * scale / sqrt (pop_var + epsilon) + offset\<close>, normalized
  with the stored population statistics.
\<close>

theorem batch_norm_inference_frame:
  assumes vars: "batch_norm_variables reuse dflt (scope_join outer ns) (width x) s0 = Inr (hs, s4)"
  shows "\<exists>y. batch_norm reuse dflt outer x ns False eps decay s0 = Inr (y, s4)
    \<and> (\<forall>n. s0 n \<noteq> None \<longrightarrow> s4 n = s0 n)
    \<and> (reuse \<longrightarrow> s4 = s0)
    \<and> y = batch_normalization x
            (vec_of (read_var s4 (scope_join (scope_join outer ns) ''pop_mean'')))
            (vec_of (read_var s4 (scope_join (scope_join outer ns) ''pop_var'')))
            (vec_of (read_var s4 (scope_join (scope_join outer ns) ''offset'')))
            (vec_of (read_var s4 (scope_join (scope_join outer ns) ''scale''))) eps
    \<and> (\<forall>r k. r < length (rows x) \<and> k < length (rows x ! r)
            \<and> k < length (vec_of (read_var s4 (scope_join (scope_join outer ns) ''pop_mean'')))
            \<and> k < length (vec_of (read_var s4 (scope_join (scope_join outer ns) ''pop_var'')))
            \<and> k < length (vec_of (read_var s4 (scope_join (scope_join outer ns) ''offset'')))
            \<and> k < length (vec_of (read_var s4 (scope_join (scope_join outer ns) ''scale''))) \<longrightarrow>
          rows y ! r ! k
            = (rows x ! r ! k
                 - vec_of (read_var s4 (scope_join (scope_join outer ns) ''pop_mean'')) ! k)
                * (vec_of (read_var s4 (scope_join (scope_join outer ns) ''scale'')) ! k
                     / sqrt (vec_of (read_var s4 (scope_join (scope_join outer ns) ''pop_var'')) ! k
                              + eps))
              + vec_of (read_var s4 (scope_join (scope_join outer ns) ''offset'')) ! k)"
  using batch_norm_inference_run[OF vars, of eps decay]
    batch_norm_variables_Inr(6)[OF vars] batch_norm_variables_Inr(7)[OF vars]
  by (simp add: batch_normalization_nth)

theorem batch_norm_inference_frame_witness:
  "\<exists>y. batch_norm True (fill 0) ''cell'' example_batch ''xh'' False (1/1000) (999/1000) example_store
          = Inr (y, example_store)
      \<and> rows y ! 1 ! 0 = (5 - 0) * ((1/10) / sqrt (1 + 1/1000)) + 0"
proof -
  from batch_norm_inference_frame [OF example_store_variables, of "fill 0" "1/1000" "999/1000"]
  obtain y where
    run: "batch_norm True (fill 0) ''cell'' example_batch ''xh'' False (1/1000) (999/1000)
            example_store = Inr (y, example_store)" and
    y: "y = batch_normalization example_batch
            (vec_of (read_var example_store (scope_join (scope_join ''cell'' ''xh'') ''pop_mean'')))
            (vec_of (read_var example_store (scope_join (scope_join ''cell'' ''xh'') ''pop_var'')))
            (vec_of (read_var example_store (scope_join (scope_join ''cell'' ''xh'') ''offset'')))
            (vec_of (read_var example_store (scope_join (scope_join ''cell'' ''xh'') ''scale'')))
            (1/1000)"
    by blast
  have "rows y ! 1 ! 0 = (5 - 0) * ((1/10) / sqrt (1 + 1/1000)) + 0"
    by (simp add: y batch_normalization_def example_batch_def read_var_def scope_join_def
          example_store_def)
  with run show ?thesis by blast
qed


section \<open>Batch normalization: initial values\<close>

text \<open>
  Claim C7, amended. When \<open>batch_norm\<close> creates its variables, \<open>scale\<close> is 0.1 in every
  component and trainable, \<open>pop_mean\<close> is 0 and \<open>pop_var\<close> is 1 in every component and both
  are not trainable; \<open>offset\<close> is trainable and gets no initializer of its own, so its
  initial value \<open>d\<close> is whatever the default initializer of the enclosing scope yields.
\<close>

theorem batch_norm_initial_values:
  assumes "s0 (scope_join (scope_join outer ns) ''scale'') = None"
    and "s0 (scope_join (scope_join outer ns) ''offset'') = None"
    and "s0 (scope_join (scope_join outer ns) ''pop_mean'') = None"
    and "s0 (scope_join (scope_join outer ns) ''pop_var'') = None"
    and "dflt [width x] = Inr d"
  shows "\<exists>y s4.
      batch_norm_variables False dflt (scope_join outer ns) (width x) s0
        = Inr ((scope_join (scope_join outer ns) ''scale'',
                scope_join (scope_join outer ns) ''offset'',
                scope_join (scope_join outer ns) ''pop_mean'',
                scope_join (scope_join outer ns) ''pop_var''), s4)
    \<and> batch_norm False dflt outer x ns False eps decay s0 = Inr (y, s4)
    \<and> s4 (scope_join (scope_join outer ns) ''scale'')
        = Some \<lparr> v_shape = [width x], v_val = Vec (replicate (width x) (1/10)),
                 v_trainable = True \<rparr>
    \<and> s4 (scope_join (scope_join outer ns) ''offset'')
        = Some \<lparr> v_shape = [width x], v_val = d, v_trainable = True \<rparr>
    \<and> s4 (scope_join (scope_join outer ns) ''pop_mean'')
        = Some \<lparr> v_shape = [width x], v_val = Vec (replicate (width x) 0),
                 v_trainable = False \<rparr>
    \<and> s4 (scope_join (scope_join outer ns) ''pop_var'')
        = Some \<lparr> v_shape = [width x], v_val = Vec (replicate (width x) 1),
                 v_trainable = False \<rparr>"
proof -
  note c = batch_norm_variables_create
    [where s = s0 and scope = "scope_join outer ns" and dflt = dflt and sz = "width x" and d = d,
     OF assms]
  from batch_norm_inference_run[OF c, of eps decay] c
  show ?thesis by simp
qed

theorem batch_norm_initial_values_witness:
  "\<exists>y s4.
      batch_norm False (fill (1/2)) ''cell'' \<lparr> width = 2, rows = [] \<rparr> ''bn'' False (1/1000) (999/1000)
        (\<lambda>n. None) = Inr (y, s4)
    \<and> s4 ''cell/bn/scale'' = Some \<lparr> v_shape = [2], v_val = Vec [1/10, 1/10], v_trainable = True \<rparr>
    \<and> s4 ''cell/bn/offset'' = Some \<lparr> v_shape = [2], v_val = Vec [1/2, 1/2], v_trainable = True \<rparr>
    \<and> s4 ''cell/bn/pop_mean'' = Some \<lparr> v_shape = [2], v_val = Vec [0, 0], v_trainable = False \<rparr>
    \<and> s4 ''cell/bn/pop_var'' = Some \<lparr> v_shape = [2], v_val = Vec [1, 1], v_trainable = False \<rparr>"
  using batch_norm_initial_values
    [of "\<lambda>n. None" "''cell''" "''bn''" "fill (1/2)" "\<lparr> width = 2, rows = [] \<rparr>" "Vec [1/2, 1/2]"
        "1/1000" "999/1000"]
  by (simp add: scope_join_def numeral_2_eq_2) blast

text \<open>
  Claim C7, as stated, fails for \<open>offset\<close>: under a default initializer that yields 1/2,
  a value the library's Glorot-uniform default can draw for two features, the first call
  creates \<open>offset\<close> with 1/2 in every component, not 0.
\<close>

theorem batch_norm_offset_default_initializer:
  "batch_norm False (fill (1/2)) ''cell'' \<lparr> width = 2, rows = [] \<rparr> ''bn'' False (1/1000) (999/1000)
     (\<lambda>n. None)
   = Inr (\<lparr> width = 2, rows = [] \<rparr>,
          [''cell/bn/scale'' \<mapsto> \<lparr> v_shape = [2], v_val = Vec [1/10, 1/10], v_trainable = True \<rparr>,
           ''cell/bn/offset'' \<mapsto> \<lparr> v_shape = [2], v_val = Vec [1/2, 1/2], v_trainable = True \<rparr>,
           ''cell/bn/pop_mean'' \<mapsto> \<lparr> v_shape = [2], v_val = Vec [0, 0], v_trainable = False \<rparr>,
           ''cell/bn/pop_var'' \<mapsto> \<lparr> v_shape = [2], v_val = Vec [1, 1], v_trainable = False \<rparr>])
   \<and> Vec [1/2, 1/2] \<noteq> Vec [0, 0]"
  by (simp add: batch_norm_def batch_norm_variables_def get_variable_def bind_result_def
        scope_join_def Let_def constant_initializer_def zeros_initializer_def
        ones_initializer_def tf_cond_def tf_constant_def population_statistics_def
        batch_normalization_def numeral_2_eq_2)

section \<open>TextRNN: the loss\<close>








lemma stretch_same [simp]: "length xs = n \<Longrightarrow> stretch n xs = xs"
  by (simp add: stretch_def)

lemma bdim_same [simp]: "bdim n n = Some n"
  by (simp add: bdim_def)

lemma wf_tensor_nth: "wf_tensor t \<Longrightarrow> r < length (rows t) \<Longrightarrow> length (rows t ! r) = width t"
  by (simp add: wf_tensor_def list_all_length)

lemma map2_as_upt:
  "length xs = n \<Longrightarrow> length ys = n \<Longrightarrow> map2 f xs ys = map (\<lambda>k. f (xs ! k) (ys ! k)) [0..<n]"
  by (rule nth_equalityI) simp_all

lemma map_as_upt: "length xs = n \<Longrightarrow> map f xs = map (\<lambda>k. f (xs ! k)) [0..<n]"
  by (rule nth_equalityI) simp_all

lemma tf_binop_same:
  assumes "wf_tensor a" and "wf_tensor b" and "width a = width b"
    and "length (rows a) = length (rows b)"
  shows "tf_binop f a b
     = Inr \<lparr> width = width a,
             rows = map (\<lambda>r. map (\<lambda>k. f (rows a ! r ! k) (rows b ! r ! k)) [0..<width a])
                      [0..<length (rows a)] \<rparr>"
proof -
  have inner: "map2 f (stretch (width a) (rows a ! r)) (stretch (width a) (rows b ! r))
        = map (\<lambda>k. f (rows a ! r ! k) (rows b ! r ! k)) [0..<width a]"
    if "r < length (rows a)" for r
    using that assms by (simp add: wf_tensor_nth map2_as_upt[where n = "width a"])
  have "map2 (\<lambda>ra rb. map2 f (stretch (width a) ra) (stretch (width a) rb)) (rows a) (rows b)
        = map (\<lambda>r. map (\<lambda>k. f (rows a ! r ! k) (rows b ! r ! k)) [0..<width a])
            [0..<length (rows a)]"
    using assms(4) by (rule_tac nth_equalityI) (simp_all add: inner)
  then show ?thesis using assms by (simp add: tf_binop_def)
qed








section \<open>Stores, tensors and initializers: auxiliary facts\<close>

lemma wf_value_Vec: "wf_value [n] t \<Longrightarrow> \<exists>xs. t = Vec xs \<and> length xs = n"
  by (cases t) simp_all

lemma wf_initializer_fill: "wf_initializer (fill c)"
proof -
  have "wf_value shp t" if "fill c shp = Inr t" for shp t
    using that by (induction c shp rule: fill.induct) (auto simp add: list_all_length)
  then show ?thesis by (simp add: wf_initializer_def)
qed

lemma get_variable_wf:
  assumes "wf_store s" and "wf_initializer dflt"
    and "\<And>i. init = Some i \<Longrightarrow> wf_initializer i"
    and "get_variable reuse dflt scope name shp init tr s = Inr (h, s')"
  shows "wf_store s'"
proof (cases reuse)
  case True
  then show ?thesis using assms get_variable_Inr(5)[OF assms(4)] by simp
next
  case False
  from assms(4) False obtain x where
    x: "(case init of None \<Rightarrow> dflt | Some i \<Rightarrow> i) shp = Inr x" and
    s': "s' = s(scope_join scope name \<mapsto> \<lparr> v_shape = shp, v_val = x, v_trainable = tr \<rparr>)"
    by (auto simp add: get_variable_def Let_def bind_result_def split: option.splits sum.splits)
  have "wf_value shp x"
    using x assms(2,3) by (cases init) (auto simp add: wf_initializer_def)
  then show ?thesis using assms(1) by (auto simp add: s' wf_store_def wf_variable_def)
qed

lemma batch_norm_variables_wf:
  assumes "wf_store s0" and "wf_initializer dflt"
    and "batch_norm_variables reuse dflt scope sz s0 = Inr (hs, s4)"
  shows "wf_store s4"
proof -
  from assms(3) obtain h1 h2 h3 h4 s1 s2 s3 where
    g1: "get_variable reuse dflt scope ''scale'' [sz] (Some (constant_initializer 0.1)) True s0 = Inr (h1, s1)" and
    g2: "get_variable reuse dflt scope ''offset'' [sz] None True s1 = Inr (h2, s2)" and
    g3: "get_variable reuse dflt scope ''pop_mean'' [sz] (Some zeros_initializer) False s2 = Inr (h3, s3)" and
    g4: "get_variable reuse dflt scope ''pop_var'' [sz] (Some ones_initializer) False s3 = Inr (h4, s4)"
    by (auto simp add: batch_norm_variables_def bind_result_def split: sum.splits prod.splits)
  have w1: "wf_store s1"
    by (rule get_variable_wf[OF assms(1,2) _ g1])
       (simp add: constant_initializer_def wf_initializer_fill)
  have w2: "wf_store s2"
    by (rule get_variable_wf[OF w1 assms(2) _ g2]) simp
  have w3: "wf_store s3"
    by (rule get_variable_wf[OF w2 assms(2) _ g3])
       (simp add: zeros_initializer_def wf_initializer_fill)
  show ?thesis
    by (rule get_variable_wf[OF w3 assms(2) _ g4])
       (simp add: ones_initializer_def wf_initializer_fill)
qed

lemma wf_store_read_vec:
  assumes "wf_store s" and "s n = Some v" and "v_shape v = [sz]"
  shows "length (vec_of (read_var s n)) = sz"
proof -
  from assms(1,2) have "wf_value (v_shape v) (v_val v)"
    unfolding wf_store_def wf_variable_def by blast
  with assms(3) have "wf_value [sz] (v_val v)" by simp
  then obtain xs where "v_val v = Vec xs" "length xs = sz" using wf_value_Vec by blast
  then show ?thesis using assms(2) by (simp add: read_var_def)
qed

lemma batch_norm_result:
  assumes st: "wf_store s0" and df: "wf_initializer dflt" and x: "wf_tensor x"
    and run: "batch_norm reuse dflt outer x ns tr eps decay s0 = Inr (y, s')"
  shows "width y = width x" and "length (rows y) = length (rows x)" and "wf_tensor y"
    and "wf_store s'"
    and "\<And>n v. s0 n = Some v \<Longrightarrow> n \<noteq> scope_join (scope_join outer ns) ''pop_mean'' \<Longrightarrow>
           n \<noteq> scope_join (scope_join outer ns) ''pop_var'' \<Longrightarrow> s' n = Some v"
proof -
  let ?sc = "scope_join outer ns"
  from run obtain hs s4 where
    vars: "batch_norm_variables reuse dflt ?sc (width x) s0 = Inr (hs, s4)"
    by (auto simp add: batch_norm_def bind_result_def Let_def split: sum.splits)
  note V = batch_norm_variables_Inr[OF vars]
  have w4: "wf_store s4" by (rule batch_norm_variables_wf[OF st df vars])
  from V(2) obtain vsc where vsc: "s4 (scope_join ?sc ''scale'') = Some vsc" "v_shape vsc = [width x]" by blast
  from V(3) obtain vof where vof: "s4 (scope_join ?sc ''offset'') = Some vof" "v_shape vof = [width x]" by blast
  from V(4) obtain pm where pm: "s4 (scope_join ?sc ''pop_mean'') = Some pm" "v_shape pm = [width x]" by blast
  from V(5) obtain pv where pv: "s4 (scope_join ?sc ''pop_var'') = Some pv" "v_shape pv = [width x]" by blast
  note lsc = wf_store_read_vec[OF w4 vsc] and lof = wf_store_read_vec[OF w4 vof]
    and lpm = wf_store_read_vec[OF w4 pm] and lpv = wf_store_read_vec[OF w4 pv]
  obtain m v where mv: "moments x = (m, v)" by (cases "moments x")
  note lm = moments_length[OF mv]
  have lpm': "length (vec_of (v_val pm)) = width x" and lpv': "length (vec_of (v_val pv)) = width x"
    using lpm lpv pm pv by (simp_all add: read_var_def)
  show "width y = width x" "length (rows y) = length (rows x)" "wf_tensor y" "wf_store s'"
    and "\<And>n v. s0 n = Some v \<Longrightarrow> n \<noteq> scope_join ?sc ''pop_mean'' \<Longrightarrow>
           n \<noteq> scope_join ?sc ''pop_var'' \<Longrightarrow> s' n = Some v"
  proof -
    have res: "y = (if tr then batch_normalization x m v (vec_of (read_var s4 (scope_join ?sc ''offset'')))
                     (vec_of (read_var s4 (scope_join ?sc ''scale''))) eps
               else batch_normalization x (vec_of (read_var s4 (scope_join ?sc ''pop_mean'')))
                     (vec_of (read_var s4 (scope_join ?sc ''pop_var'')))
                     (vec_of (read_var s4 (scope_join ?sc ''offset'')))
                     (vec_of (read_var s4 (scope_join ?sc ''scale''))) eps)"
      and st': "s' = (if tr then s4(scope_join ?sc ''pop_mean'' \<mapsto>
                 pm\<lparr> v_val := Vec (map2 (+) (scale_vec (vec_of (v_val pm)) decay)
                                             (scale_vec m (1 - decay))) \<rparr>,
               scope_join ?sc ''pop_var'' \<mapsto>
                 pv\<lparr> v_val := Vec (map2 (+) (scale_vec (vec_of (v_val pv)) decay)
                                             (scale_vec v (1 - decay))) \<rparr>) else s4)"
      using run batch_norm_training_run[OF vars mv pm(1) pv(1), of eps decay]
        batch_norm_inference_run[OF vars, of eps decay]
      by (cases tr; simp)+
    show "width y = width x" "length (rows y) = length (rows x)"
      by (simp_all add: res batch_normalization_shape)
    show "wf_tensor y"
      using x lsc lof lpm lpv lm by (simp add: res batch_normalization_wf)
    show "wf_store s'"
      using w4 pm pv lpm' lpv' lm
      by (auto simp add: st' wf_store_def wf_variable_def scale_vec_def)
    show "s' n = Some u" if "s0 n = Some u" "n \<noteq> scope_join ?sc ''pop_mean''"
      "n \<noteq> scope_join ?sc ''pop_var''" for n u
      using that V(6)[of n] by (simp add: st')
  qed
qed


lemma tensor_of_simps [simp]:
  "width (tensor_of w b g) = w"
  "length (rows (tensor_of w b g)) = b"
  "wf_tensor (tensor_of w b g)"
  by (simp_all add: tensor_of_def wf_tensor_def list_all_length)

lemma tensor_of_nth [simp]: "r < b \<Longrightarrow> k < w \<Longrightarrow> rows (tensor_of w b g) ! r ! k = g r k"
  by (simp add: tensor_of_def)

lemma tensor_of_row: "r < b \<Longrightarrow> rows (tensor_of w b g) ! r = map (g r) [0..<w]"
  by (simp add: tensor_of_def)

lemma tensor_of_cong:
  "(\<And>r k. r < b \<Longrightarrow> k < w \<Longrightarrow> g r k = g' r k) \<Longrightarrow> tensor_of w b g = tensor_of w b g'"
  by (simp add: tensor_of_def)

lemma tensor_as_tensor_of:
  assumes "wf_tensor t"
  shows "t = tensor_of (width t) (length (rows t)) (\<lambda>r k. rows t ! r ! k)"
proof -
  have "rows t = map (\<lambda>r. map (\<lambda>k. rows t ! r ! k) [0..<width t]) [0..<length (rows t)]"
  proof (rule nth_equalityI)
    show "length (rows t)
        = length (map (\<lambda>r. map (\<lambda>k. rows t ! r ! k) [0..<width t]) [0..<length (rows t)])"
      by simp
    fix r assume r: "r < length (rows t)"
    then have "length (rows t ! r) = width t" using assms by (rule wf_tensor_nth[rotated])
    then have "rows t ! r = map (\<lambda>k. rows t ! r ! k) [0..<width t]"
      by (intro nth_equalityI) simp_all
    then show "rows t ! r
        = map (\<lambda>r. map (\<lambda>k. rows t ! r ! k) [0..<width t]) [0..<length (rows t)] ! r"
      using r by simp
  qed
  then show ?thesis by (simp add: tensor_of_def)
qed

lemma tf_map_tensor_of: "tf_map f (tensor_of w b g) = tensor_of w b (\<lambda>r k. f (g r k))"
  by (simp add: tf_map_def tensor_of_def o_def)

lemma tf_binop_tensor_of:
  "tf_binop f (tensor_of w b g) (tensor_of w b g') = Inr (tensor_of w b (\<lambda>r k. f (g r k) (g' r k)))"
proof -
  have "tf_binop f (tensor_of w b g) (tensor_of w b g')
      = Inr \<lparr> width = w,
              rows = map (\<lambda>r. map (\<lambda>k. f (rows (tensor_of w b g) ! r ! k)
                                          (rows (tensor_of w b g') ! r ! k)) [0..<w]) [0..<b] \<rparr>"
    using tf_binop_same[of "tensor_of w b g" "tensor_of w b g'" f] by simp
  then show ?thesis by (simp add: tensor_of_def)
qed

lemma bias_add_tensor_of:
  assumes "length v = w"
  shows "bias_add (tensor_of w b g) v = tensor_of w b (\<lambda>r k. g r k + v ! k)"
  using assms by (simp add: bias_add_def tensor_of_def o_def map2_as_upt[where n = w])

lemma take_drop_map_upt:
  assumes "m + n \<le> t"
  shows "take n (drop m (map f [0..<t])) = map (\<lambda>k. f (m + k)) [0..<n]"
  using assms by (intro nth_equalityI) simp_all

lemma split_part:
  assumes "p < 4"
  shows "\<lparr> width = n, rows = map (\<lambda>row. take n (drop (p * n) row)) (rows (tensor_of (4 * n) b g)) \<rparr>
       = tensor_of n b (\<lambda>r k. g r (p * n + k))"
proof -
  have le: "p * n + n \<le> 4 * n"
  proof -
    have "p * n + n = (p + 1) * n" by simp
    also have "\<dots> \<le> 4 * n" using assms by (intro mult_le_mono1) simp
    finally show ?thesis .
  qed
  have "map (\<lambda>row. take n (drop (p * n) row)) (rows (tensor_of (4 * n) b g))
      = map (\<lambda>r. map (\<lambda>k. g r (p * n + k)) [0..<n]) [0..<b]"
    by (rule nth_equalityI) (simp_all add: tensor_of_row take_drop_map_upt[OF le])
  then show ?thesis by (simp add: tensor_of_def)
qed

lemma tf_split4_tensor_of:
  "tf_split4 (tensor_of (4 * n) b g)
     = Inr (tensor_of n b (\<lambda>r k. g r k), tensor_of n b (\<lambda>r k. g r (n + k)),
            tensor_of n b (\<lambda>r k. g r (2 * n + k)), tensor_of n b (\<lambda>r k. g r (3 * n + k)))"
proof -
  have q: "4 * n mod 4 = 0" "4 * n div 4 = n" by simp_all
  have "tf_split4 (tensor_of (4 * n) b g)
      = Inr (\<lparr> width = n, rows = map (\<lambda>row. take n (drop (0 * n) row)) (rows (tensor_of (4 * n) b g)) \<rparr>,
             \<lparr> width = n, rows = map (\<lambda>row. take n (drop (1 * n) row)) (rows (tensor_of (4 * n) b g)) \<rparr>,
             \<lparr> width = n, rows = map (\<lambda>row. take n (drop (2 * n) row)) (rows (tensor_of (4 * n) b g)) \<rparr>,
             \<lparr> width = n, rows = map (\<lambda>row. take n (drop (3 * n) row)) (rows (tensor_of (4 * n) b g)) \<rparr>)"
    unfolding tf_split4_def Let_def tensor_of_simps q by simp
  also have "\<dots> = Inr (tensor_of n b (\<lambda>r k. g r k), tensor_of n b (\<lambda>r k. g r (n + k)),
            tensor_of n b (\<lambda>r k. g r (2 * n + k)), tensor_of n b (\<lambda>r k. g r (3 * n + k)))"
  proof -
    have e0: "\<lparr> width = n, rows = map (\<lambda>row. take n (drop (0 * n) row)) (rows (tensor_of (4 * n) b g)) \<rparr>
        = tensor_of n b (\<lambda>r k. g r k)"
      using split_part[of 0 n b g] by simp
    have e1: "\<lparr> width = n, rows = map (\<lambda>row. take n (drop (1 * n) row)) (rows (tensor_of (4 * n) b g)) \<rparr>
        = tensor_of n b (\<lambda>r k. g r (n + k))"
      using split_part[of 1 n b g] by simp
    have e2: "\<lparr> width = n, rows = map (\<lambda>row. take n (drop (2 * n) row)) (rows (tensor_of (4 * n) b g)) \<rparr>
        = tensor_of n b (\<lambda>r k. g r (2 * n + k))"
      using split_part[of 2 n b g] by simp
    have e3: "\<lparr> width = n, rows = map (\<lambda>row. take n (drop (3 * n) row)) (rows (tensor_of (4 * n) b g)) \<rparr>
        = tensor_of n b (\<lambda>r k. g r (3 * n + k))"
      using split_part[of 3 n b g] by simp
    show ?thesis by (simp only: e0 e1 e2 e3)
  qed
  finally show ?thesis .
qed


lemma chunks_length:
  assumes "length xs = r * k"
  shows "length (chunks r k xs) = r" and "list_all (\<lambda>row. length row = k) (chunks r k xs)"
proof -
  have m: "min (r * k - i * k) k = k" if "i < r" for i
  proof -
    have "(i + 1) * k \<le> r * k" using that by (intro mult_le_mono1) simp
    then show ?thesis by (simp add: algebra_simps)
  qed
  show "length (chunks r k xs) = r" by (simp add: chunks_def)
  show "list_all (\<lambda>row. length row = k) (chunks r k xs)"
    using assms m by (simp add: chunks_def list_all_length)
qed

lemma reshape_wf: "reshape q shp = Inr t \<Longrightarrow> wf_value shp t"
  by (auto simp add: reshape_def Let_def chunks_length split: if_splits list.splits)

lemma orthogonal_wf: "orthogonal svd normal shp = Inr t \<Longrightarrow> wf_value shp t"
  by (auto simp add: orthogonal_def Let_def reshape_wf split: list.splits prod.splits)

lemma wf_orthogonal_initializer: "wf_initializer (orthogonal_initializer svd normal)"
  by (simp add: wf_initializer_def orthogonal_initializer_def orthogonal_wf)

lemma assign_columns_wf:
  assumes "assign_columns sz cols t lo hi v = Inr t'"
    and "length t = sz" and "list_all (\<lambda>row. length row = cols) t"
    and "length v = sz" and "list_all (\<lambda>row. length row = sz) v"
  shows "length t' = sz \<and> list_all (\<lambda>row. length row = cols) t'"
  using assms
  by (auto simp add: assign_columns_def Let_def list_all_length split: if_splits)

lemma orthogonal_square:
  assumes "orthogonal svd normal [sz, sz] = Inr q"
  shows "length (mat_of q) = sz \<and> list_all (\<lambda>row. length row = sz) (mat_of q)"
  using orthogonal_wf[OF assms] by (cases q) simp_all

lemma scaled_identity_wf:
  "length (scaled_identity n c) = n \<and> list_all (\<lambda>row. length row = n) (scaled_identity n c)"
  by (simp add: scaled_identity_def list_all_length)

lemma wf_bn_lstm_identity_initializer:
  "wf_initializer (bn_lstm_identity_initializer svd n1 n2 n3 scale)"
proof -
  have "wf_value shp t" if run: "bn_lstm_identity_initializer svd n1 n2 n3 scale shp = Inr t" for shp t
  proof -
    from run obtain sz cols where shp: "shp = [sz, cols]"
      by (auto simp add: bn_lstm_identity_initializer_def split: list.splits)
    from run[unfolded shp] obtain t1 q1 t2 q2 t3 q3 t4 where
      a1: "assign_columns sz cols (replicate sz (replicate cols 0)) sz (sz * 2)
             (scaled_identity sz scale) = Inr t1" and
      o1: "orthogonal svd n1 [sz, sz] = Inr q1" and
      a2: "assign_columns sz cols t1 0 sz (mat_of q1) = Inr t2" and
      o2: "orthogonal svd n2 [sz, sz] = Inr q2" and
      a3: "assign_columns sz cols t2 (sz * 2) (sz * 3) (mat_of q2) = Inr t3" and
      o3: "orthogonal svd n3 [sz, sz] = Inr q3" and
      a4: "assign_columns sz cols t3 (sz * 3) cols (mat_of q3) = Inr t4" and
      t: "t = Mat t4"
      by (auto simp add: bn_lstm_identity_initializer_def bind_result_def Let_def
          split: sum.splits)
    have w0: "length (replicate sz (replicate cols (0::real))) = sz
        \<and> list_all (\<lambda>row. length row = cols) (replicate sz (replicate cols (0::real)))"
      by (simp add: list_all_length)
    have w1: "length t1 = sz \<and> list_all (\<lambda>row. length row = cols) t1"
      using assign_columns_wf[OF a1] w0 scaled_identity_wf[of sz scale] by blast
    have w2: "length t2 = sz \<and> list_all (\<lambda>row. length row = cols) t2"
      using assign_columns_wf[OF a2] w1 orthogonal_square[OF o1] by blast
    have w3: "length t3 = sz \<and> list_all (\<lambda>row. length row = cols) t3"
      using assign_columns_wf[OF a3] w2 orthogonal_square[OF o2] by blast
    have w4: "length t4 = sz \<and> list_all (\<lambda>row. length row = cols) t4"
      using assign_columns_wf[OF a4] w3 orthogonal_square[OF o3] by blast
    then show ?thesis by (simp add: shp t)
  qed
  then show ?thesis by (simp add: wf_initializer_def)
qed

lemma matmul_var_result:
  assumes "matmul_var a s n = Inr t" and "s n = Some v" and "v_shape v = [i, out]"
  shows "width t = out" and "length (rows t) = length (rows a)" and "wf_tensor t"
    and "width a = i"
  using assms
  by (auto simp add: matmul_var_def tf_matmul_def wf_tensor_def list_all_length split: if_splits)

lemma cell_call_run:
  assumes st: "wf_store s0"
    and inits: "wf_initializer dflt"
    and tens: "wf_tensor c" "width c = n" "length (rows c) = length (rows inputs)"
    and n: "n = cell_num_units self"
    and vs: "vs = (case scope of None \<Rightarrow> ''BatchNormLSTMCell''
                   | Some m \<Rightarrow> if m = [] then ''BatchNormLSTMCell'' else m)"
    and re: "reuse = (cell_reuse self = Some True)"
    and g1: "get_variable reuse dflt vs ''W_xh'' [width inputs, 4 * n]
               (Some (orthogonal_initializer svd (rnd 0))) True s0 = Inr (W_xh, s1)"
    and g2: "get_variable reuse dflt vs ''W_hh'' [n, 4 * n]
               (Some (bn_lstm_identity_initializer svd (rnd 1) (rnd 2) (rnd 3) 0.95)) True s1
               = Inr (W_hh, s2)"
    and g3: "get_variable reuse dflt vs ''bias'' [4 * n] None True s2 = Inr (bias, s3)"
    and mx: "matmul_var inputs s3 W_xh = Inr xh"
    and mh: "matmul_var h s3 W_hh = Inr hh"
    and bh: "length (rows h) = length (rows inputs)"
    and b1: "batch_norm reuse dflt vs xh ''xh'' (cell_is_training self) (1/1000) (999/1000) s3
               = Inr (bn_xh, s4)"
    and b2: "batch_norm reuse dflt vs hh ''hh'' (cell_is_training self) (1/1000) (999/1000) s4
               = Inr (bn_hh, s5)"
    and hid: "hidden = lstm_hidden bn_xh bn_hh (vec_of (read_var s5 bias))"
    and b3: "batch_norm reuse dflt vs
               (lstm_new_c n (cell_forget_bias self) (cell_activation self) c hidden)
               ''c'' (cell_is_training self) (1/1000) (999/1000) s5 = Inr (bn_new_c, s6)"
  shows "cell_call self svd rnd dflt inputs (c, h) scope s0
           = Inr ((lstm_new_h n (cell_activation self) bn_new_c hidden,
                   (lstm_new_c n (cell_forget_bias self) (cell_activation self) c hidden,
                    lstm_new_h n (cell_activation self) bn_new_c hidden)), s6)"
    and "tf_binop (+) bn_xh bn_hh
           = Inr (tensor_of (4 * n) (length (rows inputs))
                    (\<lambda>r q. rows bn_xh ! r ! q + rows bn_hh ! r ! q))"
    and "bias_add (tensor_of (4 * n) (length (rows inputs))
                    (\<lambda>r q. rows bn_xh ! r ! q + rows bn_hh ! r ! q)) (vec_of (read_var s5 bias))
           = tensor_of (4 * n) (length (rows inputs)) hidden"
    and "length (rows bn_new_c) = length (rows inputs)"
proof -
  let ?b = "length (rows inputs)"
  let ?fb = "cell_forget_bias self"
  let ?act = "cell_activation self"
  note G1 = get_variable_Inr[OF g1] and G2 = get_variable_Inr[OF g2]
    and G3 = get_variable_Inr[OF g3]
  have w1: "wf_store s1"
    by (rule get_variable_wf[OF st inits(1) _ g1]) (simp add: wf_orthogonal_initializer)
  have w2: "wf_store s2"
    by (rule get_variable_wf[OF w1 inits(1) _ g2]) (simp add: wf_bn_lstm_identity_initializer)
  have w3: "wf_store s3" by (rule get_variable_wf[OF w2 inits(1) _ g3]) simp
  from G1(2) obtain vx where vx: "s1 (scope_join vs ''W_xh'') = Some vx"
    "v_shape vx = [width inputs, 4 * n]" by blast
  from G2(2) obtain vh where vh: "s2 (scope_join vs ''W_hh'') = Some vh"
    "v_shape vh = [n, 4 * n]" by blast
  from G3(2) obtain vb where vb: "s3 (scope_join vs ''bias'') = Some vb"
    "v_shape vb = [4 * n]" by blast
  have vx3: "s3 W_xh = Some vx"
    using vx(1) G1(1) G2(3)[of "scope_join vs ''W_xh''"] G3(3)[of "scope_join vs ''W_xh''"]
    by simp
  have vh3: "s3 W_hh = Some vh"
    using vh(1) G2(1) G3(3)[of "scope_join vs ''W_hh''"] by simp
  note X = matmul_var_result[OF mx vx3 vx(2)]
  note H = matmul_var_result[OF mh vh3 vh(2)]
  note B1 = batch_norm_result[OF w3 inits(1) X(3) b1]
  note B2 = batch_norm_result[OF B1(4) inits(1) H(3) b2]
  have vb4: "s4 (scope_join vs ''bias'') = Some vb"
    by (rule B1(5)[OF vb(1)]) (simp_all add: scope_join_def)
  have vb5: "s5 (scope_join vs ''bias'') = Some vb"
    by (rule B2(5)[OF vb4]) (simp_all add: scope_join_def)
  have lb: "length (vec_of (read_var s5 bias)) = 4 * n"
    using wf_store_read_vec[OF B2(4) vb5 vb(2)] G3(1) by simp
  have xh_eq: "bn_xh = tensor_of (4 * n) ?b (\<lambda>r k. rows bn_xh ! r ! k)"
    using tensor_as_tensor_of[OF B1(3)] B1(1,2) X(1,2) by simp
  have hh_eq: "bn_hh = tensor_of (4 * n) ?b (\<lambda>r k. rows bn_hh ! r ! k)"
    using tensor_as_tensor_of[OF B2(3)] B2(1,2) H(1,2) bh by simp
  have c_eq: "c = tensor_of n ?b (\<lambda>r k. rows c ! r ! k)"
    using tensor_as_tensor_of[OF tens(1)] tens(2,3) by simp
  have sum: "tf_binop (+) bn_xh bn_hh
      = Inr (tensor_of (4 * n) ?b (\<lambda>r q. rows bn_xh ! r ! q + rows bn_hh ! r ! q))"
    by (subst xh_eq, subst hh_eq) (rule tf_binop_tensor_of)
  have hidden: "bias_add (tensor_of (4 * n) ?b (\<lambda>r q. rows bn_xh ! r ! q + rows bn_hh ! r ! q))
                  (vec_of (read_var s5 bias)) = tensor_of (4 * n) ?b hidden"
    by (simp add: bias_add_tensor_of[OF lb] hid lstm_hidden_def)
  have split: "tf_split4 (tensor_of (4 * n) ?b hidden)
      = Inr (tensor_of n ?b (\<lambda>r k. hidden r k), tensor_of n ?b (\<lambda>r k. hidden r (n + k)),
             tensor_of n ?b (\<lambda>r k. hidden r (2 * n + k)),
             tensor_of n ?b (\<lambda>r k. hidden r (3 * n + k)))"
    by (rule tf_split4_tensor_of)
  have keep: "tf_binop (*) c (tf_map sigmoid (tf_map (\<lambda>v. v + ?fb)
                 (tensor_of n ?b (\<lambda>r k. hidden r (2 * n + k)))))
      = Inr (tensor_of n ?b (\<lambda>r k. rows c ! r ! k * sigmoid (hidden r (2 * n + k) + ?fb)))"
    by (subst c_eq) (simp only: tf_map_tensor_of tf_binop_tensor_of)
  have new_input: "tf_binop (*) (tf_map sigmoid (tensor_of n ?b (\<lambda>r k. hidden r k)))
                     (tf_map ?act (tensor_of n ?b (\<lambda>r k. hidden r (n + k))))
      = Inr (tensor_of n ?b (\<lambda>r k. sigmoid (hidden r k) * ?act (hidden r (n + k))))"
    by (simp only: tf_map_tensor_of tf_binop_tensor_of)
  have new_c: "tf_binop (+)
        (tensor_of n ?b (\<lambda>r k. rows c ! r ! k * sigmoid (hidden r (2 * n + k) + ?fb)))
        (tensor_of n ?b (\<lambda>r k. sigmoid (hidden r k) * ?act (hidden r (n + k))))
      = Inr (lstm_new_c n ?fb ?act c hidden)"
    by (simp only: tf_binop_tensor_of lstm_new_c_def tens(3))
  have wc: "wf_tensor (lstm_new_c n ?fb ?act c hidden)" by (simp add: lstm_new_c_def)
  note B3 = batch_norm_result[OF B2(4) inits(1) wc b3]
  have bnc_eq: "bn_new_c = tensor_of n ?b (\<lambda>r k. rows bn_new_c ! r ! k)"
    using tensor_as_tensor_of[OF B3(3)] B3(1,2) tens(3) by (simp add: lstm_new_c_def)
  have new_h: "tf_binop (*) (tf_map ?act bn_new_c)
                 (tf_map sigmoid (tensor_of n ?b (\<lambda>r k. hidden r (3 * n + k))))
      = Inr (lstm_new_h n ?act bn_new_c hidden)"
  proof -
    have "tf_binop (*) (tf_map ?act (tensor_of n ?b (\<lambda>r k. rows bn_new_c ! r ! k)))
                 (tf_map sigmoid (tensor_of n ?b (\<lambda>r k. hidden r (3 * n + k))))
      = Inr (tensor_of n ?b (\<lambda>r k. ?act (rows bn_new_c ! r ! k) * sigmoid (hidden r (3 * n + k))))"
      by (simp only: tf_map_tensor_of tf_binop_tensor_of)
    moreover have "length (rows bn_new_c) = ?b"
      using B3(2) tens(3) by (simp add: lstm_new_c_def)
    ultimately show ?thesis using bnc_eq by (simp add: lstm_new_h_def)
  qed
  show "length (rows bn_new_c) = ?b"
    using B3(2) tens(3) by (simp add: lstm_new_c_def)
  show "tf_binop (+) bn_xh bn_hh
      = Inr (tensor_of (4 * n) ?b (\<lambda>r q. rows bn_xh ! r ! q + rows bn_hh ! r ! q))"
    by (rule sum)
  show "bias_add (tensor_of (4 * n) ?b (\<lambda>r q. rows bn_xh ! r ! q + rows bn_hh ! r ! q))
                  (vec_of (read_var s5 bias)) = tensor_of (4 * n) ?b hidden"
    by (rule hidden)
  show "cell_call self svd rnd dflt inputs (c, h) scope s0
           = Inr ((lstm_new_h n ?act bn_new_c hidden,
                   (lstm_new_c n ?fb ?act c hidden, lstm_new_h n ?act bn_new_c hidden)), s6)"
    unfolding cell_call_def Let_def
    using g1 g2 g3 mx mh b1 b2 b3
    by (simp add: bind_result_def n[symmetric] vs[symmetric] re[symmetric]
          sum hidden split keep new_input new_c new_h)
qed


lemma map_upt_4:
  "map f [0..<4 * n]
     = map f [0..<n] @ map (\<lambda>k. f (n + k)) [0..<n] @ map (\<lambda>k. f (2 * n + k)) [0..<n]
       @ map (\<lambda>k. f (3 * n + k)) [0..<n]"
proof (rule nth_equalityI)
  show "length (map f [0..<4 * n])
      = length (map f [0..<n] @ map (\<lambda>k. f (n + k)) [0..<n] @ map (\<lambda>k. f (2 * n + k)) [0..<n]
          @ map (\<lambda>k. f (3 * n + k)) [0..<n])"
    by simp
  fix i assume "i < length (map f [0..<4 * n])"
  then have i: "i < 4 * n" by simp
  consider "i < n" | "n \<le> i" "i < 2 * n" | "2 * n \<le> i" "i < 3 * n" | "3 * n \<le> i"
    by linarith
  then show "map f [0..<4 * n] ! i
      = (map f [0..<n] @ map (\<lambda>k. f (n + k)) [0..<n] @ map (\<lambda>k. f (2 * n + k)) [0..<n]
          @ map (\<lambda>k. f (3 * n + k)) [0..<n]) ! i"
  proof cases
    case 1
    then show ?thesis using i by (simp add: nth_append)
  next
    case 2
    then have a: "\<not> i < n" "i - n < n" "n + (i - n) = i" by simp_all
    show ?thesis using i by (simp add: nth_append a)
  next
    case 3
    then have a: "\<not> i < n" "\<not> i - n < n" "i - (n + n) < n" "2 * n + (i - (n + n)) = i"
      by simp_all
    show ?thesis using i by (simp add: nth_append a)
  next
    case 4
    then have a: "\<not> i < n" "\<not> i - n < n" "\<not> i - (n + n) < n" "i - (n + n + n) < n"
      "3 * n + (i - (n + n + n)) = i"
      using i by simp_all
    show ?thesis using i by (simp add: nth_append a)
  qed
qed

section \<open>BatchNormLSTMCell: the recurrence\<close>

text \<open>
  Claim C1. Let the three parameters of the cell be in place, let \<open>xh\<close> and \<open>hh\<close> be the
  products of the input and of \<open>h\<close> with \<open>W_xh\<close> and \<open>W_hh\<close>, \<open>bn_xh\<close> and \<open>bn_hh\<close> their batch
  normalizations, \<open>hidden = bn_xh + bn_hh + bias\<close>, and \<open>bn_new_c\<close> the batch normalization
  of the new cell state. Then the call returns, its output is the new hidden state, which
  is also the second component of the returned state, and entry by entry
  \<open>new_c = c * sigmoid (f + forget_bias) + sigmoid i * activation j\<close> and
  \<open>new_h = activation bn_new_c * sigmoid o\<close>, where \<open>i\<close>, \<open>j\<close>, \<open>f\<close>, \<open>o\<close> are the four
  consecutive quarters of \<open>hidden\<close>. The defaults are \<open>forget_bias = 1\<close> and \<open>tanh\<close>.
\<close>

theorem cell_call_recurrence:
  assumes st: "wf_store s0" and df: "wf_initializer dflt"
    and c: "wf_tensor c" "width c = n" "length (rows c) = length (rows inputs)"
    and n: "n = cell_num_units self"
    and vs: "vs = (case scope of None \<Rightarrow> ''BatchNormLSTMCell''
                   | Some m \<Rightarrow> if m = [] then ''BatchNormLSTMCell'' else m)"
    and re: "reuse = (cell_reuse self = Some True)"
    and g1: "get_variable reuse dflt vs ''W_xh'' [width inputs, 4 * n]
               (Some (orthogonal_initializer svd (rnd 0))) True s0 = Inr (W_xh, s1)"
    and g2: "get_variable reuse dflt vs ''W_hh'' [n, 4 * n]
               (Some (bn_lstm_identity_initializer svd (rnd 1) (rnd 2) (rnd 3) 0.95)) True s1
               = Inr (W_hh, s2)"
    and g3: "get_variable reuse dflt vs ''bias'' [4 * n] None True s2 = Inr (bias, s3)"
    and mx: "matmul_var inputs s3 W_xh = Inr xh"
    and mh: "matmul_var h s3 W_hh = Inr hh"
    and bh: "length (rows h) = length (rows inputs)"
    and b1: "batch_norm reuse dflt vs xh ''xh'' (cell_is_training self) (1/1000) (999/1000) s3
               = Inr (bn_xh, s4)"
    and b2: "batch_norm reuse dflt vs hh ''hh'' (cell_is_training self) (1/1000) (999/1000) s4
               = Inr (bn_hh, s5)"
    and hid: "hidden = (\<lambda>r q. rows bn_xh ! r ! q + rows bn_hh ! r ! q
                              + vec_of (read_var s5 bias) ! q)"
    and b3: "batch_norm reuse dflt vs
               (lstm_new_c n (cell_forget_bias self) (cell_activation self) c hidden)
               ''c'' (cell_is_training self) (1/1000) (999/1000) s5 = Inr (bn_new_c, s6)"
  shows "\<exists>new_c new_h.
      cell_call self svd rnd dflt inputs (c, h) scope s0 = Inr ((new_h, (new_c, new_h)), s6)
    \<and> new_c = lstm_new_c n (cell_forget_bias self) (cell_activation self) c hidden
    \<and> (\<forall>r k. r < length (rows inputs) \<and> k < n \<longrightarrow>
          rows new_c ! r ! k
            = rows c ! r ! k * sigmoid (hidden r (2 * n + k) + cell_forget_bias self)
              + sigmoid (hidden r k) * cell_activation self (hidden r (n + k)))
    \<and> (\<forall>r k. r < length (rows inputs) \<and> k < n \<longrightarrow>
          rows new_h ! r ! k
            = cell_activation self (rows bn_new_c ! r ! k) * sigmoid (hidden r (3 * n + k)))
    \<and> cell_forget_bias (BatchNormLSTMCell_default n) = 1
    \<and> cell_activation (BatchNormLSTMCell_default n) = tanh"
proof -
  have hid': "hidden = lstm_hidden bn_xh bn_hh (vec_of (read_var s5 bias))"
    by (simp add: hid lstm_hidden_def)
  note R = cell_call_run[OF st df c n vs re g1 g2 g3 mx mh bh b1 b2 hid' b3]
  show ?thesis
    using R(1) R(4) c(3)
    by (simp add: lstm_new_c_def lstm_new_h_def BatchNormLSTMCell_default_def
          BatchNormLSTMCell_init_def)
qed

text \<open>
  Claim C5. Under the same conditions the output and both components of the returned
  state have width \<open>num_units\<close> (\<open>output_size\<close> and \<open>state_size\<close>) and one row per batch
  element; \<open>hidden\<close> has width \<open>4 * num_units\<close>; the split yields four slices of width
  \<open>num_units\<close> whose rows, concatenated in the order \<open>i\<close>, \<open>j\<close>, \<open>f\<close>, \<open>o\<close>, are the rows of
  \<open>hidden\<close>; and the slices are used as input gate, candidate, forget gate and output
  gate.
\<close>

theorem cell_call_widths:
  assumes st: "wf_store s0" and df: "wf_initializer dflt"
    and c: "wf_tensor c" "width c = n" "length (rows c) = length (rows inputs)"
    and n: "n = cell_num_units self"
    and vs: "vs = (case scope of None \<Rightarrow> ''BatchNormLSTMCell''
                   | Some m \<Rightarrow> if m = [] then ''BatchNormLSTMCell'' else m)"
    and re: "reuse = (cell_reuse self = Some True)"
    and g1: "get_variable reuse dflt vs ''W_xh'' [width inputs, 4 * n]
               (Some (orthogonal_initializer svd (rnd 0))) True s0 = Inr (W_xh, s1)"
    and g2: "get_variable reuse dflt vs ''W_hh'' [n, 4 * n]
               (Some (bn_lstm_identity_initializer svd (rnd 1) (rnd 2) (rnd 3) 0.95)) True s1
               = Inr (W_hh, s2)"
    and g3: "get_variable reuse dflt vs ''bias'' [4 * n] None True s2 = Inr (bias, s3)"
    and mx: "matmul_var inputs s3 W_xh = Inr xh"
    and mh: "matmul_var h s3 W_hh = Inr hh"
    and bh: "length (rows h) = length (rows inputs)"
    and b1: "batch_norm reuse dflt vs xh ''xh'' (cell_is_training self) (1/1000) (999/1000) s3
               = Inr (bn_xh, s4)"
    and b2: "batch_norm reuse dflt vs hh ''hh'' (cell_is_training self) (1/1000) (999/1000) s4
               = Inr (bn_hh, s5)"
    and b3: "batch_norm reuse dflt vs
               (lstm_new_c n (cell_forget_bias self) (cell_activation self) c
                  (lstm_hidden bn_xh bn_hh (vec_of (read_var s5 bias))))
               ''c'' (cell_is_training self) (1/1000) (999/1000) s5 = Inr (bn_new_c, s6)"
  shows "\<exists>out new_c new_h bn_sum hidden i_gate j_gate f_gate o_gate.
      cell_call self svd rnd dflt inputs (c, h) scope s0 = Inr ((out, (new_c, new_h)), s6)
    \<and> width out = output_size self
    \<and> (width new_c, width new_h) = state_size self
    \<and> output_size self = n \<and> state_size self = (n, n)
    \<and> wf_tensor out \<and> wf_tensor new_c \<and> wf_tensor new_h
    \<and> length (rows out) = length (rows inputs)
    \<and> length (rows new_c) = length (rows inputs)
    \<and> length (rows new_h) = length (rows inputs)
    \<and> tf_binop (+) bn_xh bn_hh = Inr bn_sum
    \<and> hidden = bias_add bn_sum (vec_of (read_var s5 bias))
    \<and> width hidden = 4 * n \<and> wf_tensor hidden
    \<and> length (rows hidden) = length (rows inputs)
    \<and> tf_split4 hidden = Inr (i_gate, j_gate, f_gate, o_gate)
    \<and> width i_gate = n \<and> width j_gate = n \<and> width f_gate = n \<and> width o_gate = n
    \<and> wf_tensor i_gate \<and> wf_tensor j_gate \<and> wf_tensor f_gate \<and> wf_tensor o_gate
    \<and> (\<forall>r. r < length (rows inputs) \<longrightarrow>
          rows hidden ! r
            = rows i_gate ! r @ rows j_gate ! r @ rows f_gate ! r @ rows o_gate ! r)
    \<and> (\<forall>r k. r < length (rows inputs) \<and> k < n \<longrightarrow>
          rows new_c ! r ! k
            = rows c ! r ! k * sigmoid (rows f_gate ! r ! k + cell_forget_bias self)
              + sigmoid (rows i_gate ! r ! k) * cell_activation self (rows j_gate ! r ! k))
    \<and> (\<forall>r k. r < length (rows inputs) \<and> k < n \<longrightarrow>
          rows new_h ! r ! k
            = cell_activation self (rows bn_new_c ! r ! k) * sigmoid (rows o_gate ! r ! k))"
proof -
  let ?hid = "lstm_hidden bn_xh bn_hh (vec_of (read_var s5 bias))"
  let ?b = "length (rows inputs)"
  note R = cell_call_run[OF st df c n vs re g1 g2 g3 mx mh bh b1 b2 refl b3]
  have rowsplit: "rows (tensor_of (4 * n) ?b ?hid) ! r
      = rows (tensor_of n ?b (\<lambda>r k. ?hid r k)) ! r
        @ rows (tensor_of n ?b (\<lambda>r k. ?hid r (n + k))) ! r
        @ rows (tensor_of n ?b (\<lambda>r k. ?hid r (2 * n + k))) ! r
        @ rows (tensor_of n ?b (\<lambda>r k. ?hid r (3 * n + k))) ! r" if "r < ?b" for r
    using that by (simp add: tensor_of_row map_upt_4[of "?hid r" n])
  show ?thesis
    apply (rule exI[of _ "lstm_new_h n (cell_activation self) bn_new_c ?hid"])
    apply (rule exI[of _ "lstm_new_c n (cell_forget_bias self) (cell_activation self) c ?hid"])
    apply (rule exI[of _ "lstm_new_h n (cell_activation self) bn_new_c ?hid"])
    apply (rule exI[of _ "tensor_of (4 * n) ?b (\<lambda>r q. rows bn_xh ! r ! q + rows bn_hh ! r ! q)"])
    apply (rule exI[of _ "tensor_of (4 * n) ?b ?hid"])
    apply (rule exI[of _ "tensor_of n ?b (\<lambda>r k. ?hid r k)"])
    apply (rule exI[of _ "tensor_of n ?b (\<lambda>r k. ?hid r (n + k))"])
    apply (rule exI[of _ "tensor_of n ?b (\<lambda>r k. ?hid r (2 * n + k))"])
    apply (rule exI[of _ "tensor_of n ?b (\<lambda>r k. ?hid r (3 * n + k))"])
    using R(1) R(2) R(3) R(4) c(3) n rowsplit
    apply (simp add: lstm_new_c_def lstm_new_h_def output_size_def state_size_def
        tf_split4_tensor_of)
    done
qed


lemma example_cell_store_wf: "wf_store example_cell_store"
  by (auto simp add: wf_store_def wf_variable_def example_cell_store_def example_site_def
      split: if_splits)

lemma example_cell_vars:
  "shp = [1, 4] \<Longrightarrow>
   get_variable True dflt ''BatchNormLSTMCell'' ''W_xh'' shp i1 True example_cell_store
     = Inr (''BatchNormLSTMCell/W_xh'', example_cell_store)"
  "shp = [1, 4] \<Longrightarrow>
   get_variable True dflt ''BatchNormLSTMCell'' ''W_hh'' shp i2 True example_cell_store
     = Inr (''BatchNormLSTMCell/W_hh'', example_cell_store)"
  "shp' = [4] \<Longrightarrow>
   get_variable True dflt ''BatchNormLSTMCell'' ''bias'' shp' i3 True example_cell_store
     = Inr (''BatchNormLSTMCell/bias'', example_cell_store)"
  by (simp_all add: get_variable_def scope_join_def Let_def example_cell_store_def
        example_site_def)

lemma upt_4: "[0..<4] = [0, 1, 2, 3]"
  by code_simp

lemma example_cell_matmul:
  "matmul_var example_zero example_cell_store ''BatchNormLSTMCell/W_xh''
     = Inr \<lparr> width = 4, rows = [[0, 0, 0, 0]] \<rparr>"
  "matmul_var example_zero example_cell_store ''BatchNormLSTMCell/W_hh''
     = Inr \<lparr> width = 4, rows = [[0, 0, 0, 0]] \<rparr>"
  by (simp_all add: matmul_var_def tf_matmul_def column_def example_cell_store_def
        example_site_def example_zero_def upt_4)

lemma example_cell_bn_xh:
  "batch_norm True dflt ''BatchNormLSTMCell'' \<lparr> width = 4, rows = [[0, 0, 0, 0]] \<rparr> ''xh''
     False (1/1000) (999/1000) example_cell_store
   = Inr (\<lparr> width = 4, rows = [[0, 0, 0, 0]] \<rparr>, example_cell_store)"
proof -
  have vars: "batch_norm_variables True dflt (scope_join ''BatchNormLSTMCell'' ''xh'')
        (width \<lparr> width = 4, rows = [[0, 0, 0, 0::real]] \<rparr>) example_cell_store
      = Inr ((scope_join (scope_join ''BatchNormLSTMCell'' ''xh'') ''scale'',
              scope_join (scope_join ''BatchNormLSTMCell'' ''xh'') ''offset'',
              scope_join (scope_join ''BatchNormLSTMCell'' ''xh'') ''pop_mean'',
              scope_join (scope_join ''BatchNormLSTMCell'' ''xh'') ''pop_var''), example_cell_store)"
    by (intro batch_norm_variables_reuse)
       (auto simp add: scope_join_def example_cell_store_def example_site_def)
  show ?thesis
    unfolding batch_norm_inference_run[OF vars]
    by (simp add: batch_normalization_def read_var_def scope_join_def example_cell_store_def
          example_site_def numeral_eq_Suc)
qed

lemma example_cell_bn_hh:
  "batch_norm True dflt ''BatchNormLSTMCell'' \<lparr> width = 4, rows = [[0, 0, 0, 0]] \<rparr> ''hh''
     False (1/1000) (999/1000) example_cell_store
   = Inr (\<lparr> width = 4, rows = [[0, 0, 0, 0]] \<rparr>, example_cell_store)"
proof -
  have vars: "batch_norm_variables True dflt (scope_join ''BatchNormLSTMCell'' ''hh'')
        (width \<lparr> width = 4, rows = [[0, 0, 0, 0::real]] \<rparr>) example_cell_store
      = Inr ((scope_join (scope_join ''BatchNormLSTMCell'' ''hh'') ''scale'',
              scope_join (scope_join ''BatchNormLSTMCell'' ''hh'') ''offset'',
              scope_join (scope_join ''BatchNormLSTMCell'' ''hh'') ''pop_mean'',
              scope_join (scope_join ''BatchNormLSTMCell'' ''hh'') ''pop_var''), example_cell_store)"
    by (intro batch_norm_variables_reuse)
       (auto simp add: scope_join_def example_cell_store_def example_site_def)
  show ?thesis
    unfolding batch_norm_inference_run[OF vars]
    by (simp add: batch_normalization_def read_var_def scope_join_def example_cell_store_def
          example_site_def numeral_eq_Suc)
qed

lemma example_cell_bn_c:
  "batch_norm True dflt ''BatchNormLSTMCell'' x ''c'' False (1/1000) (999/1000) example_cell_store
     = Inr (batch_normalization x [0] [1] [0] [1/10] (1/1000), example_cell_store)"
  if "width x = 1"
proof -
  have vars: "batch_norm_variables True dflt (scope_join ''BatchNormLSTMCell'' ''c'')
        (width x) example_cell_store
      = Inr ((scope_join (scope_join ''BatchNormLSTMCell'' ''c'') ''scale'',
              scope_join (scope_join ''BatchNormLSTMCell'' ''c'') ''offset'',
              scope_join (scope_join ''BatchNormLSTMCell'' ''c'') ''pop_mean'',
              scope_join (scope_join ''BatchNormLSTMCell'' ''c'') ''pop_var''), example_cell_store)"
    using that
    by (intro batch_norm_variables_reuse)
       (auto simp add: scope_join_def example_cell_store_def example_site_def)
  show ?thesis
    unfolding batch_norm_inference_run[OF vars]
    by (simp add: read_var_def scope_join_def example_cell_store_def example_site_def)
qed


theorem cell_call_recurrence_witness:
  "\<exists>new_c new_h.
      cell_call example_cell example_svd example_rnd (fill 0) example_zero
        (example_c, example_zero) None example_cell_store
        = Inr ((new_h, (new_c, new_h)), example_cell_store)
    \<and> rows new_c = [[5 * sigmoid (3 + 1) + sigmoid 1 * tanh 2]]
    \<and> cell_forget_bias (BatchNormLSTMCell_default 1) = 1"
proof -
  let ?S = "example_cell_store"
  let ?Z = "\<lparr> width = 4, rows = [[0, 0, 0, 0::real]] \<rparr>"
  have c: "wf_tensor example_c" "width example_c = 1"
    "length (rows example_c) = length (rows example_zero)"
    by (simp_all add: example_c_def example_zero_def wf_tensor_def)
  have n: "1 = cell_num_units example_cell"
    by (simp add: example_cell_def BatchNormLSTMCell_init_def)
  have vs: "''BatchNormLSTMCell'' = (case None :: string option of None \<Rightarrow> ''BatchNormLSTMCell''
                   | Some m \<Rightarrow> if m = [] then ''BatchNormLSTMCell'' else m)"
    by simp
  have re: "True = (cell_reuse example_cell = Some True)"
    by (simp add: example_cell_def BatchNormLSTMCell_init_def)
  have g1: "get_variable True (fill 0) ''BatchNormLSTMCell'' ''W_xh'' [width example_zero, 4 * 1]
        (Some (orthogonal_initializer example_svd (example_rnd 0))) True ?S
      = Inr (''BatchNormLSTMCell/W_xh'', ?S)"
    by (rule example_cell_vars(1)) (simp add: example_zero_def)
  have g2: "get_variable True (fill 0) ''BatchNormLSTMCell'' ''W_hh'' [1, 4 * 1]
        (Some (bn_lstm_identity_initializer example_svd (example_rnd 1) (example_rnd 2)
                 (example_rnd 3) 0.95)) True ?S
      = Inr (''BatchNormLSTMCell/W_hh'', ?S)"
    by (rule example_cell_vars(2)) simp
  have g3: "get_variable True (fill 0) ''BatchNormLSTMCell'' ''bias'' [4 * 1] None True ?S
      = Inr (''BatchNormLSTMCell/bias'', ?S)"
    by (rule example_cell_vars(3)) simp
  have tr: "cell_is_training example_cell = False"
    by (simp add: example_cell_def BatchNormLSTMCell_init_def)
  have b1: "batch_norm True (fill 0) ''BatchNormLSTMCell'' ?Z ''xh''
        (cell_is_training example_cell) (1/1000) (999/1000) ?S = Inr (?Z, ?S)"
    unfolding tr by (rule example_cell_bn_xh)
  have b2: "batch_norm True (fill 0) ''BatchNormLSTMCell'' ?Z ''hh''
        (cell_is_training example_cell) (1/1000) (999/1000) ?S = Inr (?Z, ?S)"
    unfolding tr by (rule example_cell_bn_hh)
  let ?hid = "\<lambda>r q. rows ?Z ! r ! q + rows ?Z ! r ! q
                     + vec_of (read_var ?S ''BatchNormLSTMCell/bias'') ! q"
  let ?nc = "lstm_new_c 1 (cell_forget_bias example_cell) (cell_activation example_cell)
               example_c ?hid"
  have b3: "batch_norm True (fill 0) ''BatchNormLSTMCell'' ?nc ''c''
        (cell_is_training example_cell) (1/1000) (999/1000) ?S
      = Inr (batch_normalization ?nc [0] [1] [0] [1/10] (1/1000), ?S)"
    unfolding tr by (rule example_cell_bn_c) (simp add: lstm_new_c_def)
  note T = cell_call_recurrence[OF example_cell_store_wf wf_initializer_fill c n vs re g1 g2 g3
      example_cell_matmul(1) example_cell_matmul(2) refl b1 b2 refl b3]
  then obtain new_c new_h where
    run: "cell_call example_cell example_svd example_rnd (fill 0) example_zero
        (example_c, example_zero) None ?S = Inr ((new_h, (new_c, new_h)), ?S)" and
    nc: "new_c = ?nc" and
    fb: "cell_forget_bias (BatchNormLSTMCell_default 1) = 1"
    by blast
  have "rows new_c = [[5 * sigmoid (3 + 1) + sigmoid 1 * tanh 2]]"
    by (simp add: nc lstm_new_c_def tensor_of_def example_c_def example_cell_def
          BatchNormLSTMCell_init_def read_var_def example_cell_store_def example_site_def)
  with run fb show ?thesis by blast
qed

theorem cell_call_widths_witness:
  "\<exists>out new_c new_h hidden i_gate j_gate f_gate o_gate.
      cell_call example_cell example_svd example_rnd (fill 0) example_zero
        (example_c, example_zero) None example_cell_store
        = Inr ((out, (new_c, new_h)), example_cell_store)
    \<and> width out = 1 \<and> width new_c = 1 \<and> width new_h = 1
    \<and> width hidden = 4
    \<and> tf_split4 hidden = Inr (i_gate, j_gate, f_gate, o_gate)
    \<and> rows hidden = [[1, 2, 3, 4]]
    \<and> rows i_gate = [[1]] \<and> rows j_gate = [[2]] \<and> rows f_gate = [[3]] \<and> rows o_gate = [[4]]"
proof -
  let ?S = "example_cell_store"
  let ?Z = "\<lparr> width = 4, rows = [[0, 0, 0, 0::real]] \<rparr>"
  have c: "wf_tensor example_c" "width example_c = 1"
    "length (rows example_c) = length (rows example_zero)"
    by (simp_all add: example_c_def example_zero_def wf_tensor_def)
  have n: "1 = cell_num_units example_cell"
    by (simp add: example_cell_def BatchNormLSTMCell_init_def)
  have vs: "''BatchNormLSTMCell'' = (case None :: string option of None \<Rightarrow> ''BatchNormLSTMCell''
                   | Some m \<Rightarrow> if m = [] then ''BatchNormLSTMCell'' else m)"
    by simp
  have re: "True = (cell_reuse example_cell = Some True)"
    by (simp add: example_cell_def BatchNormLSTMCell_init_def)
  have g1: "get_variable True (fill 0) ''BatchNormLSTMCell'' ''W_xh'' [width example_zero, 4 * 1]
        (Some (orthogonal_initializer example_svd (example_rnd 0))) True ?S
      = Inr (''BatchNormLSTMCell/W_xh'', ?S)"
    by (rule example_cell_vars(1)) (simp add: example_zero_def)
  have g2: "get_variable True (fill 0) ''BatchNormLSTMCell'' ''W_hh'' [1, 4 * 1]
        (Some (bn_lstm_identity_initializer example_svd (example_rnd 1) (example_rnd 2)
                 (example_rnd 3) 0.95)) True ?S
      = Inr (''BatchNormLSTMCell/W_hh'', ?S)"
    by (rule example_cell_vars(2)) simp
  have g3: "get_variable True (fill 0) ''BatchNormLSTMCell'' ''bias'' [4 * 1] None True ?S
      = Inr (''BatchNormLSTMCell/bias'', ?S)"
    by (rule example_cell_vars(3)) simp
  have tr: "cell_is_training example_cell = False"
    by (simp add: example_cell_def BatchNormLSTMCell_init_def)
  have b1: "batch_norm True (fill 0) ''BatchNormLSTMCell'' ?Z ''xh''
        (cell_is_training example_cell) (1/1000) (999/1000) ?S = Inr (?Z, ?S)"
    unfolding tr by (rule example_cell_bn_xh)
  have b2: "batch_norm True (fill 0) ''BatchNormLSTMCell'' ?Z ''hh''
        (cell_is_training example_cell) (1/1000) (999/1000) ?S = Inr (?Z, ?S)"
    unfolding tr by (rule example_cell_bn_hh)
  let ?hid = "lstm_hidden ?Z ?Z (vec_of (read_var ?S ''BatchNormLSTMCell/bias''))"
  let ?nc = "lstm_new_c 1 (cell_forget_bias example_cell) (cell_activation example_cell)
               example_c ?hid"
  have b3: "batch_norm True (fill 0) ''BatchNormLSTMCell'' ?nc ''c''
        (cell_is_training example_cell) (1/1000) (999/1000) ?S
      = Inr (batch_normalization ?nc [0] [1] [0] [1/10] (1/1000), ?S)"
    unfolding tr by (rule example_cell_bn_c) (simp add: lstm_new_c_def)
  note T = cell_call_widths[OF example_cell_store_wf wf_initializer_fill c n vs re g1 g2 g3
      example_cell_matmul(1) example_cell_matmul(2) refl b1 b2 b3]
  then obtain out new_c new_h bn_sum hidden i_gate j_gate f_gate o_gate where
    run: "cell_call example_cell example_svd example_rnd (fill 0) example_zero
        (example_c, example_zero) None ?S = Inr ((out, (new_c, new_h)), ?S)" and
    w: "width out = output_size example_cell"
       "(width new_c, width new_h) = state_size example_cell"
       "output_size example_cell = 1" "state_size example_cell = (1, 1)" and
    sum: "tf_binop (+) ?Z ?Z = Inr bn_sum" and
    hid: "hidden = bias_add bn_sum (vec_of (read_var ?S ''BatchNormLSTMCell/bias''))" and
    wh: "width hidden = 4 * 1" and
    sp: "tf_split4 hidden = Inr (i_gate, j_gate, f_gate, o_gate)"
    by blast
  from sum have bs: "bn_sum = ?Z"
    by (simp add: tf_binop_def bdim_def stretch_def)
  have rh: "rows hidden = [[1, 2, 3, 4]]"
    by (simp add: hid bs bias_add_def read_var_def example_cell_store_def example_site_def)
  from wh have wh4: "width hidden = 4" by simp
  from sp have "rows i_gate = [[1]]" "rows j_gate = [[2]]" "rows f_gate = [[3]]"
    "rows o_gate = [[4]]"
    by (auto simp add: tf_split4_def Let_def wh4 rh)
  with run w wh4 sp rh show ?thesis by auto
qed


lemma take_drop_concat:
  assumes "list_all (\<lambda>row. length row = k) m" and "i < length m"
  shows "take k (drop (i * k) (concat m)) = m ! i"
  using assms
proof (induction m arbitrary: i)
  case Nil
  then show ?case by simp
next
  case (Cons row m)
  show ?case
  proof (cases i)
    case 0
    then show ?thesis using Cons.prems by simp
  next
    case (Suc j)
    then show ?thesis using Cons.prems Cons.IH[of j] by simp
  qed
qed

lemma chunks_concat:
  assumes "length m = r" and "list_all (\<lambda>row. length row = k) m"
  shows "chunks r k (concat m) = m"
  unfolding chunks_def using assms
  by (intro nth_equalityI) (simp_all add: take_drop_concat)

lemma length_concat_square:
  assumes "list_all (\<lambda>row. length row = k) m"
  shows "length (concat m) = length m * k"
  using assms by (induction m) simp_all

lemma orthogonal_square_contract:
  assumes "svd_square_contract svd normal n u"
  shows "orthogonal svd normal [n, n] = Inr (Mat (nd_data u))"
proof -
  from assms obtain sv v where sv: "svd (normal (n, n)) = (u, sv, v)"
    and u: "nd_rows u = n" "nd_cols u = n" "length (nd_data u) = n"
      "list_all (\<lambda>row. length row = n) (nd_data u)"
    by (auto simp add: svd_square_contract_def)
  have len: "length (concat (nd_data u)) = n * n"
    using length_concat_square[OF u(4)] u(3) by simp
  show ?thesis
    by (simp add: orthogonal_def Let_def sv u reshape_def len chunks_concat[OF u(3) u(4)])
qed

lemma assign_columns_exact:
  assumes t: "t = map (\<lambda>r. map (g r) [0..<cols]) [0..<sz]"
    and v: "length v = sz" "list_all (\<lambda>row. length row = sz) v"
    and lo: "lo + sz \<le> cols" and hi: "hi = lo + sz"
  shows "assign_columns sz cols t lo hi v
     = Inr (map (\<lambda>r. map (\<lambda>j. if lo \<le> j \<and> j < lo + sz then v ! r ! (j - lo) else g r j)
                          [0..<cols]) [0..<sz])"
proof -
  have mins: "min lo cols = lo" "max lo (min hi cols) = lo + sz" "lo + sz - lo = sz"
    using lo hi by simp_all
  have row: "take lo (map (g r) [0..<cols]) @ v ! r @ drop (lo + sz) (map (g r) [0..<cols])
      = map (\<lambda>j. if lo \<le> j \<and> j < lo + sz then v ! r ! (j - lo) else g r j) [0..<cols]"
    if r: "r < sz" for r
  proof (rule nth_equalityI)
    have lv: "length (v ! r) = sz" using v r by (simp add: list_all_length)
    show "length (take lo (map (g r) [0..<cols]) @ v ! r @ drop (lo + sz) (map (g r) [0..<cols]))
        = length (map (\<lambda>j. if lo \<le> j \<and> j < lo + sz then v ! r ! (j - lo) else g r j) [0..<cols])"
      using lo lv by simp
    fix j
    assume "j < length (take lo (map (g r) [0..<cols]) @ v ! r
                         @ drop (lo + sz) (map (g r) [0..<cols]))"
    then have j: "j < cols" using lo lv by simp
    consider "j < lo" | "lo \<le> j" "j < lo + sz" | "lo + sz \<le> j" by linarith
    then show "(take lo (map (g r) [0..<cols]) @ v ! r @ drop (lo + sz) (map (g r) [0..<cols])) ! j
        = map (\<lambda>j. if lo \<le> j \<and> j < lo + sz then v ! r ! (j - lo) else g r j) [0..<cols] ! j"
    proof cases
      case 1
      then show ?thesis using j lo by (simp add: nth_append)
    next
      case 2
      then have a: "\<not> j < lo" "j - lo < sz" by simp_all
      show ?thesis using j lo lv 2 by (simp add: nth_append a)
    next
      case 3
      then have a: "\<not> j < lo" "\<not> j - lo < sz" "\<not> j < lo + sz"
        "lo + sz + (j - (lo + sz)) = j" by simp_all
      show ?thesis using j lo lv by (simp add: nth_append a)
    qed
  qed
  have "map2 (\<lambda>row vrow. take lo row @ vrow @ drop (lo + sz) row) t v
      = map (\<lambda>r. map (\<lambda>j. if lo \<le> j \<and> j < lo + sz then v ! r ! (j - lo) else g r j)
                          [0..<cols]) [0..<sz]"
    using v(1) by (intro nth_equalityI) (simp_all add: t row)
  then show ?thesis by (simp add: assign_columns_def Let_def mins)
qed


lemma matrix_tabulate:
  assumes "length m = r" and "list_all (\<lambda>row. length row = k) m"
  shows "m = map (\<lambda>i. map (\<lambda>j. m ! i ! j) [0..<k]) [0..<r]"
proof (rule nth_equalityI)
  show "length m = length (map (\<lambda>i. map (\<lambda>j. m ! i ! j) [0..<k]) [0..<r])"
    using assms by simp
  fix i assume i: "i < length m"
  then have "length (m ! i) = k" using assms by (simp add: list_all_length)
  then have "m ! i = map (\<lambda>j. m ! i ! j) [0..<k]"
    by (intro nth_equalityI) simp_all
  then show "m ! i = map (\<lambda>i. map (\<lambda>j. m ! i ! j) [0..<k]) [0..<r] ! i"
    using i assms by simp
qed

lemma column_block_tabulate:
  assumes "p * n + n \<le> cols"
  shows "column_block (map (\<lambda>r. map (g r) [0..<cols]) [0..<sz]) n p
       = map (\<lambda>r. map (\<lambda>k. g r (p * n + k)) [0..<n]) [0..<sz]"
  by (simp add: column_block_def take_drop_map_upt[OF assms] o_def)

lemma bn_lstm_identity_run:
  assumes c1: "svd_square_contract svd normal1 n u1"
    and c2: "svd_square_contract svd normal2 n u2"
    and c3: "svd_square_contract svd normal3 n u3"
  shows "bn_lstm_identity_initializer svd normal1 normal2 normal3 scale [n, 4 * n]
     = Inr (Mat (map (\<lambda>r. map (\<lambda>j.
          if 3 * n \<le> j \<and> j < 3 * n + n then nd_data u3 ! r ! (j - 3 * n)
          else if 2 * n \<le> j \<and> j < 2 * n + n then nd_data u2 ! r ! (j - 2 * n)
          else if 0 \<le> j \<and> j < 0 + n then nd_data u1 ! r ! (j - 0)
          else if n \<le> j \<and> j < n + n then scaled_identity n scale ! r ! (j - n)
          else 0) [0..<4 * n]) [0..<n]))"
proof -
  note o1 = orthogonal_square_contract[OF c1] and o2 = orthogonal_square_contract[OF c2]
    and o3 = orthogonal_square_contract[OF c3]
  have u1: "length (nd_data u1) = n" "list_all (\<lambda>row. length row = n) (nd_data u1)"
    and u2: "length (nd_data u2) = n" "list_all (\<lambda>row. length row = n) (nd_data u2)"
    and u3: "length (nd_data u3) = n" "list_all (\<lambda>row. length row = n) (nd_data u3)"
    using c1 c2 c3 by (simp_all add: svd_square_contract_def)
  have t0: "replicate n (replicate (4 * n) (0::real)) = map (\<lambda>r. map (\<lambda>j. 0) [0..<4 * n]) [0..<n]"
    by (simp add: map_replicate_const)
  note si = scaled_identity_wf[of n scale]
  have a1: "assign_columns n (4 * n) (replicate n (replicate (4 * n) 0)) n (n * 2)
              (scaled_identity n scale)
      = Inr (map (\<lambda>r. map (\<lambda>j. if n \<le> j \<and> j < n + n then scaled_identity n scale ! r ! (j - n)
                                  else 0) [0..<4 * n]) [0..<n])"
    by (rule assign_columns_exact[OF t0]) (use si in simp_all)
  have a2: "assign_columns n (4 * n)
              (map (\<lambda>r. map (\<lambda>j. if n \<le> j \<and> j < n + n then scaled_identity n scale ! r ! (j - n)
                                  else 0) [0..<4 * n]) [0..<n]) 0 n (nd_data u1)
      = Inr (map (\<lambda>r. map (\<lambda>j.
          if 0 \<le> j \<and> j < 0 + n then nd_data u1 ! r ! (j - 0)
          else if n \<le> j \<and> j < n + n then scaled_identity n scale ! r ! (j - n)
          else 0) [0..<4 * n]) [0..<n])"
    by (rule assign_columns_exact[OF refl]) (use u1 in simp_all)
  have a3: "assign_columns n (4 * n)
              (map (\<lambda>r. map (\<lambda>j.
                 if 0 \<le> j \<and> j < 0 + n then nd_data u1 ! r ! (j - 0)
                 else if n \<le> j \<and> j < n + n then scaled_identity n scale ! r ! (j - n)
                 else 0) [0..<4 * n]) [0..<n]) (n * 2) (n * 3) (nd_data u2)
      = Inr (map (\<lambda>r. map (\<lambda>j.
          if n * 2 \<le> j \<and> j < n * 2 + n then nd_data u2 ! r ! (j - n * 2)
          else if 0 \<le> j \<and> j < 0 + n then nd_data u1 ! r ! (j - 0)
          else if n \<le> j \<and> j < n + n then scaled_identity n scale ! r ! (j - n)
          else 0) [0..<4 * n]) [0..<n])"
    by (rule assign_columns_exact[OF refl]) (use u2 in simp_all)
  have a4: "assign_columns n (4 * n)
              (map (\<lambda>r. map (\<lambda>j.
                 if n * 2 \<le> j \<and> j < n * 2 + n then nd_data u2 ! r ! (j - n * 2)
                 else if 0 \<le> j \<and> j < 0 + n then nd_data u1 ! r ! (j - 0)
                 else if n \<le> j \<and> j < n + n then scaled_identity n scale ! r ! (j - n)
                 else 0) [0..<4 * n]) [0..<n]) (n * 3) (4 * n) (nd_data u3)
      = Inr (map (\<lambda>r. map (\<lambda>j.
          if n * 3 \<le> j \<and> j < n * 3 + n then nd_data u3 ! r ! (j - n * 3)
          else if n * 2 \<le> j \<and> j < n * 2 + n then nd_data u2 ! r ! (j - n * 2)
          else if 0 \<le> j \<and> j < 0 + n then nd_data u1 ! r ! (j - 0)
          else if n \<le> j \<and> j < n + n then scaled_identity n scale ! r ! (j - n)
          else 0) [0..<4 * n]) [0..<n])"
    by (rule assign_columns_exact[OF refl]) (use u3 in simp_all)
  show ?thesis
    unfolding bn_lstm_identity_initializer_def
    apply (simp only: list.case Let_def a1 o1 a2 o2 a3 o3 a4 bind_result_def sum.case
        mat_of.simps)
    apply (simp add: mult.commute)
    done
qed


lemma scaled_identity_nth:
  "r < n \<Longrightarrow> k < n \<Longrightarrow> scaled_identity n c ! r ! k = (if r = k then c else 0)"
  by (simp add: scaled_identity_def)

section \<open>The identity-biased initializer\<close>

text \<open>
  Claim C6. For every size \<open>n\<close> and scale, with three draws on which the factorization
  keeps its contract, the initializer applied to the shape \<open>[n, 4 * n]\<close> returns a matrix of
  that shape whose second block of columns is the scaled identity; its first, third and
  fourth blocks are the results of three calls of \<open>orthogonal\<close> on \<open>[n, n]\<close>, one per draw,
  namely the left factors of the three draws, with orthonormal columns and rows. Over
  the reals the orthonormality is exact.
\<close>

theorem bn_lstm_identity_initializer_blocks:
  assumes c1: "svd_square_contract svd normal1 n u1"
    and c2: "svd_square_contract svd normal2 n u2"
    and c3: "svd_square_contract svd normal3 n u3"
  shows "\<exists>t.
      bn_lstm_identity_initializer svd normal1 normal2 normal3 scale [n, 4 * n] = Inr (Mat t)
    \<and> wf_value [n, 4 * n] (Mat t)
    \<and> column_block t n 1 = scaled_identity n scale
    \<and> (\<forall>r k. r < n \<and> k < n \<longrightarrow> t ! r ! (n + k) = (if r = k then scale else 0))
    \<and> orthogonal svd normal1 [n, n] = Inr (Mat (column_block t n 0))
    \<and> orthogonal svd normal2 [n, n] = Inr (Mat (column_block t n 2))
    \<and> orthogonal svd normal3 [n, n] = Inr (Mat (column_block t n 3))
    \<and> column_block t n 0 = nd_data u1
    \<and> column_block t n 2 = nd_data u2
    \<and> column_block t n 3 = nd_data u3
    \<and> orthonormal_columns n (column_block t n 0) \<and> orthonormal_rows n (column_block t n 0)
    \<and> orthonormal_columns n (column_block t n 2) \<and> orthonormal_rows n (column_block t n 2)
    \<and> orthonormal_columns n (column_block t n 3) \<and> orthonormal_rows n (column_block t n 3)"
proof -
  define G where "G = (\<lambda>r j.
          if 3 * n \<le> j \<and> j < 3 * n + n then nd_data u3 ! r ! (j - 3 * n)
          else if 2 * n \<le> j \<and> j < 2 * n + n then nd_data u2 ! r ! (j - 2 * n)
          else if 0 \<le> j \<and> j < 0 + n then nd_data u1 ! r ! (j - 0)
          else if n \<le> j \<and> j < n + n then scaled_identity n scale ! r ! (j - n)
          else 0)"
  define t where "t = map (\<lambda>r. map (G r) [0..<4 * n]) [0..<n]"
  have run: "bn_lstm_identity_initializer svd normal1 normal2 normal3 scale [n, 4 * n]
      = Inr (Mat t)"
    unfolding t_def G_def by (rule bn_lstm_identity_run[OF c1 c2 c3])
  have u1: "length (nd_data u1) = n" "list_all (\<lambda>row. length row = n) (nd_data u1)"
      "orthonormal_columns n (nd_data u1)" "orthonormal_rows n (nd_data u1)"
    and u2: "length (nd_data u2) = n" "list_all (\<lambda>row. length row = n) (nd_data u2)"
      "orthonormal_columns n (nd_data u2)" "orthonormal_rows n (nd_data u2)"
    and u3: "length (nd_data u3) = n" "list_all (\<lambda>row. length row = n) (nd_data u3)"
      "orthonormal_columns n (nd_data u3)" "orthonormal_rows n (nd_data u3)"
    using c1 c2 c3 by (simp_all add: svd_square_contract_def)
  have wf: "wf_value [n, 4 * n] (Mat t)"
    by (simp add: t_def list_all_length)
  have blk: "column_block t n p = map (\<lambda>r. map (\<lambda>k. G r (p * n + k)) [0..<n]) [0..<n]"
    if "p < 4" for p
  proof -
    have "p * n + n = (p + 1) * n" by simp
    also have "\<dots> \<le> 4 * n" using that by (intro mult_le_mono1) simp
    finally show ?thesis unfolding t_def by (rule column_block_tabulate)
  qed
  have b0: "column_block t n 0 = nd_data u1"
    by (subst matrix_tabulate[OF u1(1,2)]) (simp add: blk G_def)
  have b1: "column_block t n 1 = scaled_identity n scale"
    by (simp add: blk G_def scaled_identity_def)
  have b2: "column_block t n 2 = nd_data u2"
    by (subst matrix_tabulate[OF u2(1,2)]) (simp add: blk G_def)
  have b3: "column_block t n 3 = nd_data u3"
    by (subst matrix_tabulate[OF u3(1,2)]) (simp add: blk G_def)
  have id: "t ! r ! (n + k) = (if r = k then scale else 0)" if "r < n" "k < n" for r k
    using that by (simp add: t_def G_def scaled_identity_nth)
  show ?thesis
    using run wf b0 b1 b2 b3 id u1(3,4) u2(3,4) u3(3,4)
      orthogonal_square_contract[OF c1] orthogonal_square_contract[OF c2]
      orthogonal_square_contract[OF c3]
    by (intro exI[of _ t]) simp
qed

lemma example_svd_contract:
  "svd_square_contract example_svd (example_rnd i) 1 \<lparr> nd_rows = 1, nd_cols = 1, nd_data = [[1]] \<rparr>"
  by (simp add: svd_square_contract_def example_svd_def orthonormal_columns_def
        orthonormal_rows_def)

theorem bn_lstm_identity_initializer_blocks_witness:
  "\<exists>t.
      bn_lstm_identity_initializer example_svd (example_rnd 1) (example_rnd 2) (example_rnd 3)
        (95/100) [1, 4 * 1] = Inr (Mat t)
    \<and> column_block t 1 1 = [[95/100]]
    \<and> column_block t 1 0 = [[1]] \<and> column_block t 1 2 = [[1]] \<and> column_block t 1 3 = [[1]]
    \<and> orthonormal_columns 1 (column_block t 1 0)"
  using bn_lstm_identity_initializer_blocks
    [OF example_svd_contract[of 1] example_svd_contract[of 2] example_svd_contract[of 3],
     of "95/100"]
  by (auto simp add: scaled_identity_def)

end
